theory Spec2Isabelle
  imports Main
begin

section \<open>Data model\<close>

text \<open>
  Python exceptions are values. \<open>ValueError\<close> is what pandas raises for the truth value
  of a DataFrame, \<open>TypeError\<close> what \<open>None += int\<close> raises, \<open>IndexError\<close> what
  \<open>data.iloc[:, i]\<close> raises out of range, \<open>KeyError\<close> what a dict raises for a
  missing key; \<open>OtherError\<close> stands for whatever a collaborator (store, file
  system, profiler, materializer, joiner) raises.
\<close>

datatype exn = ValueError | TypeError | IndexError | KeyError | OtherError string

text \<open>
  A pandas Series is the list of its cells, a DataFrame the list of its columns in
  physical order, so that \<open>data.shape[1]\<close> is the length of the list.
\<close>

type_synonym series = "string list"
type_synonym dataframe = "series list"

text \<open>
  A description is the dict loaded from the description json: the entry \<open>variables\<close>
  (absent, or a list of per-column description dicts) and the remaining entries.
\<close>

type_synonym variable_description = "(string \<times> string) list"

record description =
  d_fields :: "(string \<times> string) list"
  variables :: "variable_description list option"

text \<open>
  Modelled from the spec: the classes \<open>VariableMetadata\<close> and \<open>GlobalMetadata\<close>
  (package \<open>datamart.metadata\<close>) are not part of the sources at hand. Following the
  data model of the specification, a variable metadata holds its \<open>datamart_id\<close>, the
  column's declared description fragment and the column statistics of the profiler; a
  global metadata holds its \<open>datamart_id\<close>, the description fields, the ordered
  sequence of variable metadata and the dataset statistics of the profiler.
\<close>

record variable_metadata =
  vm_datamart_id :: int
  vm_description :: variable_description
  vm_profile :: "string option"

record global_metadata =
  gm_datamart_id :: int
  gm_fields :: "(string \<times> string) list"
  gm_variables :: "variable_metadata list"
  gm_profile :: "string option"

text \<open>
  Modelled from the spec: \<open>VariableMetadata.construct_variable\<close> stores the id it is
  given; \<open>GlobalMetadata.construct_global\<close> builds the shell from the description
  fields with the id it is given and no variable;
  \<open>add_variable_metadata\<close> appends (insertion order is column order).
\<close>

definition construct_variable :: "variable_description \<Rightarrow> int \<Rightarrow> variable_metadata" where
  "construct_variable d i = \<lparr>vm_datamart_id = i, vm_description = d, vm_profile = None\<rparr>"

definition construct_global :: "description \<Rightarrow> int \<Rightarrow> global_metadata" where
  "construct_global d i =
     \<lparr>gm_datamart_id = i, gm_fields = d_fields d, gm_variables = [], gm_profile = None\<rparr>"

definition add_variable_metadata :: "global_metadata \<Rightarrow> variable_metadata \<Rightarrow> global_metadata" where
  "add_variable_metadata gm vm = gm\<lparr>gm_variables := gm_variables gm @ [vm]\<rparr>"

subsection \<open>Effects\<close>

text \<open>
  Every call that leaves the process (store, file system, console, warnings) is
  recorded, in order, in the trace of the builder. A collaborator answers from the
  trace so far and its arguments, so its answers may change over time.
\<close>

datatype event =
    Print string
  | PrintExc exn
  | Warn string
  | CheckExists string
  | CreateIndex string
  | DeleteIndex "string list"
  | CurrentGlobalDatamartId string
  | JsonLoad string
  | ReadCsv string
  | ValidateSchema "description + global_metadata"
  | Materialize description
  | SaveData string string global_metadata
  | CreateDoc string string global_metadata int
  | UpdateDoc string string global_metadata int
  | ListDir string

record index_env =
  im_check_exists :: "event list \<Rightarrow> string \<Rightarrow> exn + bool"
  im_create_index :: "event list \<Rightarrow> string \<Rightarrow> exn + unit"
  im_delete_index :: "event list \<Rightarrow> string list \<Rightarrow> exn + unit"
  im_current_global_datamart_id :: "event list \<Rightarrow> string \<Rightarrow> exn + int"
  im_create_doc :: "event list \<Rightarrow> string \<Rightarrow> string \<Rightarrow> global_metadata \<Rightarrow> int \<Rightarrow> exn + unit"
  im_update_doc :: "event list \<Rightarrow> string \<Rightarrow> string \<Rightarrow> global_metadata \<Rightarrow> int \<Rightarrow> exn + unit"
  json_load :: "event list \<Rightarrow> string \<Rightarrow> exn + description"
  pd_read_csv :: "event list \<Rightarrow> string \<Rightarrow> exn + dataframe"
  utils_validate_schema :: "event list \<Rightarrow> description + global_metadata \<Rightarrow> exn + unit"
  utils_materialize :: "event list \<Rightarrow> description \<Rightarrow> exn + dataframe"
  write_metadata :: "event list \<Rightarrow> string \<Rightarrow> string \<Rightarrow> global_metadata \<Rightarrow> exn + unit"
  os_listdir :: "event list \<Rightarrow> string \<Rightarrow> exn + string list"
  profile_column :: "series \<Rightarrow> variable_description \<Rightarrow> exn + string"
  profile_table :: "dataframe \<Rightarrow> exn + string"

text \<open>The attributes of an \<open>IndexBuilder\<close> that change, and the trace.\<close>

record index_builder =
  current_global_index :: "int option"
  trace :: "event list"

definition GLOBAL_INDEX_INTERVAL :: int where
  "GLOBAL_INDEX_INTERVAL = 10000"

definition init :: index_builder where
  "init = \<lparr>current_global_index = None, trace = []\<rparr>"

definition emit :: "event \<Rightarrow> index_builder \<Rightarrow> index_builder" where
  "emit ev s = s\<lparr>trace := trace s @ [ev]\<rparr>"

definition call :: "event \<Rightarrow> (event list \<Rightarrow> exn + 'a) \<Rightarrow> index_builder \<Rightarrow> index_builder \<times> (exn + 'a)" where
  "call ev f s = (emit ev s, f (trace s))"

section \<open>Metadata construction\<close>

text \<open>
  Modelled from the spec: the profiler (package \<open>datamart.profiler\<close>) is a
  collaborator producing statistics, \<open>profile_column\<close> for a column and its existing
  description and \<open>profile_table\<close> for the table; \<open>basic_profiling_column\<close> and
  \<open>basic_profiling_entire\<close> attach them to the metadata they are given. Either may
  raise.
\<close>

definition basic_profiling_column ::
  "index_env \<Rightarrow> variable_description \<Rightarrow> variable_metadata \<Rightarrow> series \<Rightarrow> exn + variable_metadata" where
  "basic_profiling_column env d vm column =
     (case profile_column env column d of
        Inl e \<Rightarrow> Inl e
      | Inr st \<Rightarrow> Inr (vm\<lparr>vm_profile := Some st\<rparr>))"

definition basic_profiling_entire ::
  "index_env \<Rightarrow> global_metadata \<Rightarrow> dataframe \<Rightarrow> exn + global_metadata" where
  "basic_profiling_entire env gm data =
     (case profile_table env data of
        Inl e \<Rightarrow> Inl e
      | Inr st \<Rightarrow> Inr (gm\<lparr>gm_profile := Some st\<rparr>))"

text \<open>\<open>data.iloc[:, col_offset]\<close> for an offset that is not negative.\<close>

definition iloc_column :: "dataframe \<Rightarrow> nat \<Rightarrow> exn + series" where
  "iloc_column data col_offset =
     (if col_offset < length data then Inr (data ! col_offset) else Inl IndexError)"

definition construct_variable_metadata ::
  "index_env \<Rightarrow> variable_description \<Rightarrow> int \<Rightarrow> nat \<Rightarrow> dataframe option \<Rightarrow> exn + variable_metadata" where
  "construct_variable_metadata env d global_datamart_id col_offset data =
     (let variable_metadata = construct_variable d (int col_offset + global_datamart_id + 1)
      in case data of
           None \<Rightarrow> Inr variable_metadata
         | Some df \<Rightarrow>
             (case iloc_column df col_offset of
                Inl e \<Rightarrow> Inl e
              | Inr column \<Rightarrow> basic_profiling_column env d variable_metadata column))"

text \<open>
  The body shared by the two \<open>for\<close> loops of \<open>construct_global_metadata\<close>: for each
  pair of a column offset and a variable description, build the variable metadata and
  add it; the first exception ends the loop.
\<close>

fun add_variables ::
  "index_env \<Rightarrow> int \<Rightarrow> dataframe option \<Rightarrow> global_metadata \<Rightarrow> (nat \<times> variable_description) list
     \<Rightarrow> exn + global_metadata" where
  "add_variables env datamart_id data gm [] = Inr gm"
| "add_variables env datamart_id data gm ((col_offset, d) # rest) =
     (case construct_variable_metadata env d datamart_id col_offset data of
        Inl e \<Rightarrow> Inl e
      | Inr variable_metadata \<Rightarrow>
          add_variables env datamart_id data (add_variable_metadata gm variable_metadata) rest)"

definition enumerate_from0 :: "'a list \<Rightarrow> (nat \<times> 'a) list" where
  "enumerate_from0 xs = zip [0..<length xs] xs"

text \<open>
  Lines 249 to 253: \<open>if not overwrite_datamart_id\<close> holds for \<open>None\<close> and for \<open>0\<close>;
  then the counter is advanced, which raises \<open>TypeError\<close> while the counter is
  \<open>None\<close>.
\<close>

definition resolve_datamart_id :: "index_builder \<Rightarrow> int option \<Rightarrow> index_builder \<times> (exn + int)" where
  "resolve_datamart_id s overwrite_datamart_id =
     (if overwrite_datamart_id = None \<or> overwrite_datamart_id = Some 0 then
        (case current_global_index s of
           None \<Rightarrow> (s, Inl TypeError)
         | Some c \<Rightarrow>
             (s\<lparr>current_global_index := Some (c + GLOBAL_INDEX_INTERVAL)\<rparr>,
              Inr (c + GLOBAL_INDEX_INTERVAL)))
      else (s, Inr (the overwrite_datamart_id)))"

definition no_variables_warning :: string where
  "no_variables_warning =
     ''No data to profile for variable metadata. No variable description. Leave empty for variable metadata''"

definition construct_global_metadata ::
  "index_env \<Rightarrow> index_builder \<Rightarrow> description \<Rightarrow> dataframe option \<Rightarrow> int option
     \<Rightarrow> index_builder \<times> (exn + global_metadata)" where
  "construct_global_metadata env s d data overwrite_datamart_id =
     (case resolve_datamart_id s overwrite_datamart_id of
        (s1, Inl e) \<Rightarrow> (s1, Inl e)
      | (s1, Inr i) \<Rightarrow>
          (let global_metadata = construct_global d i in
           case
             (if variables d \<noteq> None \<and> variables d \<noteq> Some [] then
                (s1, add_variables env i data global_metadata (enumerate_from0 (the (variables d))))
              else
                (case data of
                   Some df \<Rightarrow>
                     (s1, add_variables env i data global_metadata
                            (map (\<lambda>col_offset. (col_offset, [])) [0..<length df]))
                 | None \<Rightarrow> (emit (Warn no_variables_warning) s1, Inr global_metadata)))
           of
             (s2, Inl e) \<Rightarrow> (s2, Inl e)
           | (s2, Inr gm) \<Rightarrow>
               (case data of
                  None \<Rightarrow> (s2, Inr gm)
                | Some df \<Rightarrow> (s2, basic_profiling_entire env gm df))))"

section \<open>The index builder\<close>

definition check_es_index :: "index_env \<Rightarrow> index_builder \<Rightarrow> string \<Rightarrow> bool \<Rightarrow> index_builder \<times> (exn + unit)" where
  "check_es_index env s es_index delete_old_es_index =
     (case call (CheckExists es_index) (\<lambda>tr. im_check_exists env tr es_index) s of
        (s1, Inl e) \<Rightarrow> (s1, Inl e)
      | (s1, Inr exists) \<Rightarrow>
          if \<not> exists then
            call (CreateIndex es_index) (\<lambda>tr. im_create_index env tr es_index) s1
          else if delete_old_es_index then
            (case call (DeleteIndex [es_index]) (\<lambda>tr. im_delete_index env tr [es_index]) s1 of
               (s2, Inl e) \<Rightarrow> (s2, Inl e)
             | (s2, Inr u) \<Rightarrow>
                 call (CreateIndex es_index) (\<lambda>tr. im_create_index env tr es_index) s2)
          else (s1, Inr ()))"

text \<open>
  \<open>if data_path\<close> holds for a string that is neither \<open>None\<close> nor empty. The
  description is validated before the data is read.
\<close>

definition read_data ::
  "index_env \<Rightarrow> index_builder \<Rightarrow> string \<Rightarrow> string option
     \<Rightarrow> index_builder \<times> (exn + description \<times> dataframe option)" where
  "read_data env s description_path data_path =
     (case call (JsonLoad description_path) (\<lambda>tr. json_load env tr description_path) s of
        (s1, Inl e) \<Rightarrow> (s1, Inl e)
      | (s1, Inr d) \<Rightarrow>
          (case call (ValidateSchema (Inl d)) (\<lambda>tr. utils_validate_schema env tr (Inl d)) s1 of
             (s2, Inl e) \<Rightarrow> (s2, Inl e)
           | (s2, Inr u) \<Rightarrow>
               if data_path \<noteq> None \<and> data_path \<noteq> Some [] then
                 (case call (ReadCsv (the data_path)) (\<lambda>tr. pd_read_csv env tr (the data_path)) s2 of
                    (s3, Inl e) \<Rightarrow> (s3, Inl e)
                  | (s3, Inr data) \<Rightarrow> (s3, Inr (d, Some data)))
               else (s2, Inr (d, None))))"

text \<open>The two lines written to the mirror file are one event: the id and the json.\<close>

definition save_data :: "index_env \<Rightarrow> index_builder \<Rightarrow> string \<Rightarrow> string \<Rightarrow> global_metadata \<Rightarrow> index_builder \<times> (exn + unit)" where
  "save_data env s save_to_file save_mode metadata =
     call (SaveData save_to_file save_mode metadata)
       (\<lambda>tr. write_metadata env tr save_to_file save_mode metadata) s"

text \<open>
  Lines 64 and 65 of \<open>indexing\<close>: \<open>not self.current_global_index\<close> holds for \<open>None\<close>
  and for \<open>0\<close>.
\<close>

definition sync_global_index :: "index_env \<Rightarrow> index_builder \<Rightarrow> string \<Rightarrow> bool \<Rightarrow> index_builder \<times> (exn + unit)" where
  "sync_global_index env s es_index delete_old_es_index =
     (if current_global_index s = None \<or> current_global_index s = Some 0 \<or> delete_old_es_index then
        (case call (CurrentGlobalDatamartId es_index)
                (\<lambda>tr. im_current_global_datamart_id env tr es_index) s of
           (s1, Inl e) \<Rightarrow> (s1, Inl e)
         | (s1, Inr i) \<Rightarrow> (s1\<lparr>current_global_index := Some i\<rparr>, Inr ()))
      else (s, Inr ()))"

definition materialization_warning :: string where
  "materialization_warning = ''Materialization Failed, index based on schema json only''"

text \<open>
  Lines 68 to 73 of \<open>indexing\<close>, the same as lines 122 to 127 of \<open>updating\<close>. The
  test \<open>not data\<close> is evaluated first: on a DataFrame pandas raises \<open>ValueError\<close>,
  whatever the flag is. The bare \<open>except\<close> catches every exception of the
  materializer; \<open>data\<close> then keeps the value \<open>None\<close>.
\<close>

definition query_data ::
  "index_env \<Rightarrow> index_builder \<Rightarrow> description \<Rightarrow> dataframe option \<Rightarrow> bool
     \<Rightarrow> index_builder \<times> (exn + dataframe option)" where
  "query_data env s d data query_data_for_indexing =
     (case data of
        Some df \<Rightarrow> (s, Inl ValueError)
      | None \<Rightarrow>
          if query_data_for_indexing then
            (case call (Materialize d) (\<lambda>tr. utils_materialize env tr d) s of
               (s1, Inl e) \<Rightarrow> (emit (Warn materialization_warning) (emit (PrintExc e) s1), Inr None)
             | (s1, Inr df) \<Rightarrow> (s1, Inr (Some df)))
          else (s, Inr None))"

text \<open>\<open>profile\<close> returns the metadata it is given.\<close>

definition profile :: "dataframe \<Rightarrow> global_metadata \<Rightarrow> global_metadata" where
  "profile data metadata = metadata"

text \<open>Lines 60 to 67 of \<open>indexing\<close>: up to the return of \<open>_read_data\<close>.\<close>

definition indexing_read ::
  "index_env \<Rightarrow> index_builder \<Rightarrow> string \<Rightarrow> string \<Rightarrow> string option \<Rightarrow> bool
     \<Rightarrow> index_builder \<times> (exn + description \<times> dataframe option)" where
  "indexing_read env s description_path es_index data_path delete_old_es_index =
     (case check_es_index env
             (emit (Print (''==== Creating metadata and indexing for '' @ description_path)) s)
             es_index delete_old_es_index of
        (s1, Inl e) \<Rightarrow> (s1, Inl e)
      | (s1, Inr u) \<Rightarrow>
          (case sync_global_index env s1 es_index delete_old_es_index of
             (s2, Inl e) \<Rightarrow> (s2, Inl e)
           | (s2, Inr u) \<Rightarrow> read_data env s2 description_path data_path))"

text \<open>
  Lines 75 to 87 of \<open>indexing\<close>: construct, profile, validate, mirror to the file,
  write to the store, return. \<open>if save_to_file\<close> holds for a string that is neither
  \<open>None\<close> nor empty.
\<close>

definition indexing_finish ::
  "index_env \<Rightarrow> index_builder \<Rightarrow> description \<Rightarrow> dataframe option \<Rightarrow> string \<Rightarrow> string option \<Rightarrow> string
     \<Rightarrow> index_builder \<times> (exn + global_metadata)" where
  "indexing_finish env s d data es_index save_to_file save_to_file_mode =
     (case construct_global_metadata env s d data None of
        (s1, Inl e) \<Rightarrow> (s1, Inl e)
      | (s1, Inr constructed) \<Rightarrow>
          (let metadata = (case data of None \<Rightarrow> constructed | Some df \<Rightarrow> profile df constructed) in
           case call (ValidateSchema (Inr metadata))
                  (\<lambda>tr. utils_validate_schema env tr (Inr metadata)) s1 of
             (s2, Inl e) \<Rightarrow> (s2, Inl e)
           | (s2, Inr u) \<Rightarrow>
               (case (if save_to_file \<noteq> None \<and> save_to_file \<noteq> Some [] then
                        save_data env s2 (the save_to_file) save_to_file_mode metadata
                      else (s2, Inr ())) of
                  (s3, Inl e) \<Rightarrow> (s3, Inl e)
                | (s3, Inr u) \<Rightarrow>
                    (case call (CreateDoc es_index ''_doc'' metadata (gm_datamart_id metadata))
                            (\<lambda>tr. im_create_doc env tr es_index ''_doc'' metadata
                                     (gm_datamart_id metadata)) s3 of
                       (s4, Inl e) \<Rightarrow> (s4, Inl e)
                     | (s4, Inr u) \<Rightarrow> (s4, Inr metadata)))))"

definition indexing ::
  "index_env \<Rightarrow> index_builder \<Rightarrow> string \<Rightarrow> string \<Rightarrow> string option \<Rightarrow> bool \<Rightarrow> string option \<Rightarrow> string \<Rightarrow> bool
     \<Rightarrow> index_builder \<times> (exn + global_metadata)" where
  "indexing env s description_path es_index data_path query_data_for_indexing
       save_to_file save_to_file_mode delete_old_es_index =
     (case indexing_read env s description_path es_index data_path delete_old_es_index of
        (s1, Inl e) \<Rightarrow> (s1, Inl e)
      | (s1, Inr (d, data)) \<Rightarrow>
          (case query_data env s1 d data query_data_for_indexing of
             (s2, Inl e) \<Rightarrow> (s2, Inl e)
           | (s2, Inr data') \<Rightarrow>
               indexing_finish env s2 d data' es_index save_to_file save_to_file_mode))"

text \<open>
  \<open>updating\<close> never synchronises the counter, always passes \<open>document_id\<close> as the
  overwrite id, and updates the document instead of creating it.
\<close>

definition updating ::
  "index_env \<Rightarrow> index_builder \<Rightarrow> string \<Rightarrow> string \<Rightarrow> int \<Rightarrow> string option \<Rightarrow> bool
     \<Rightarrow> index_builder \<times> (exn + global_metadata)" where
  "updating env s description_path es_index document_id data_path query_data_for_updating =
     (case check_es_index env s es_index False of
        (s1, Inl e) \<Rightarrow> (s1, Inl e)
      | (s1, Inr u) \<Rightarrow>
          (case read_data env s1 description_path data_path of
             (s2, Inl e) \<Rightarrow> (s2, Inl e)
           | (s2, Inr (d, data)) \<Rightarrow>
               (case query_data env s2 d data query_data_for_updating of
                  (s3, Inl e) \<Rightarrow> (s3, Inl e)
                | (s3, Inr data') \<Rightarrow>
                    (case construct_global_metadata env s3 d data' (Some document_id) of
                       (s4, Inl e) \<Rightarrow> (s4, Inl e)
                     | (s4, Inr metadata) \<Rightarrow>
                         (case call (ValidateSchema (Inr metadata))
                                 (\<lambda>tr. utils_validate_schema env tr (Inr metadata)) s4 of
                            (s5, Inl e) \<Rightarrow> (s5, Inl e)
                          | (s5, Inr u) \<Rightarrow>
                              (case call (UpdateDoc es_index ''document'' metadata (gm_datamart_id metadata))
                                      (\<lambda>tr. im_update_doc env tr es_index ''document'' metadata
                                               (gm_datamart_id metadata)) s5 of
                                 (s6, Inl e) \<Rightarrow> (s6, Inl e)
                               | (s6, Inr u) \<Rightarrow> (s6, Inr metadata)))))))"

subsection \<open>Bulk indexing\<close>

definition endswith :: "string \<Rightarrow> string \<Rightarrow> bool" where
  "endswith s suffix = (length suffix \<le> length s \<and> drop (length s - length suffix) s = suffix)"

text \<open>\<open>os.path.join\<close> of two components (posix).\<close>

definition os_path_join :: "string \<Rightarrow> string \<Rightarrow> string" where
  "os_path_join a b =
     (if take 1 b = ''/'' then b
      else if a = [] \<or> endswith a ''/'' then a @ b
      else a @ ''/'' @ b)"

text \<open>\<open>str.replace\<close>: every occurrence, left to right, without overlap.\<close>

function str_replace :: "string \<Rightarrow> string \<Rightarrow> string \<Rightarrow> string" where
  "str_replace old new s =
     (if old = [] then new @ concat (map (\<lambda>c. c # new) s)
      else if s = [] then []
      else if take (length old) s = old then new @ str_replace old new (drop (length old) s)
      else hd s # str_replace old new (tl s))"
  by pat_completeness auto
termination
  by (relation "measure (\<lambda>(old, new, s). length s)") auto

declare str_replace.simps [simp del]

text \<open>
  Lines 167 to 169 of \<open>bulk_indexing\<close>: the data file paired with a description
  file, when a data directory is given (\<open>if data_dir\<close>: neither \<open>None\<close> nor empty).
\<close>

definition bulk_data_path :: "string option \<Rightarrow> string \<Rightarrow> string option" where
  "bulk_data_path data_dir name =
     (if data_dir \<noteq> None \<and> data_dir \<noteq> Some [] then
        Some (os_path_join (the data_dir) (str_replace ''_description.json'' ''.csv'' name))
      else None)"

text \<open>
  The \<open>for\<close> loop of \<open>bulk_indexing\<close> over the directory listing. The call of
  \<open>indexing\<close> stands in no \<open>try\<close>: its exception leaves the loop and the method.
\<close>

fun bulk_indexing_loop ::
  "index_env \<Rightarrow> string \<Rightarrow> string \<Rightarrow> string option \<Rightarrow> bool \<Rightarrow> string option \<Rightarrow> string
     \<Rightarrow> index_builder \<Rightarrow> string list \<Rightarrow> index_builder \<times> (exn + unit)" where
  "bulk_indexing_loop env description_dir es_index data_dir query_data_for_indexing
       save_to_file save_to_file_mode s [] = (s, Inr ())"
| "bulk_indexing_loop env description_dir es_index data_dir query_data_for_indexing
       save_to_file save_to_file_mode s (name # rest) =
     (if endswith name ''.json'' then
        (case indexing env s (os_path_join description_dir name) es_index
                (bulk_data_path data_dir name) query_data_for_indexing
                save_to_file save_to_file_mode False of
           (s1, Inl e) \<Rightarrow> (s1, Inl e)
         | (s1, Inr metadata) \<Rightarrow>
             bulk_indexing_loop env description_dir es_index data_dir query_data_for_indexing
               save_to_file save_to_file_mode s1 rest)
      else bulk_indexing_loop env description_dir es_index data_dir query_data_for_indexing
             save_to_file save_to_file_mode s rest)"

definition bulk_indexing ::
  "index_env \<Rightarrow> index_builder \<Rightarrow> string \<Rightarrow> string \<Rightarrow> string option \<Rightarrow> bool \<Rightarrow> string option \<Rightarrow> string \<Rightarrow> bool
     \<Rightarrow> index_builder \<times> (exn + unit)" where
  "bulk_indexing env s description_dir es_index data_dir query_data_for_indexing
       save_to_file save_to_file_mode delete_old_es_index =
     (case check_es_index env s es_index delete_old_es_index of
        (s1, Inl e) \<Rightarrow> (s1, Inl e)
      | (s1, Inr u) \<Rightarrow>
          (case call (ListDir description_dir) (\<lambda>tr. os_listdir env tr description_dir) s1 of
             (s2, Inl e) \<Rightarrow> (s2, Inl e)
           | (s2, Inr names) \<Rightarrow>
               bulk_indexing_loop env description_dir es_index data_dir query_data_for_indexing
                 save_to_file save_to_file_mode s2 names))"

text \<open>What reaches the mirror file or the documents of the store.\<close>

fun is_persist :: "event \<Rightarrow> bool" where
  "is_persist (SaveData f m md) = True"
| "is_persist (CreateDoc i t md n) = True"
| "is_persist (UpdateDoc i t md n) = True"
| "is_persist ev = False"

definition persisted :: "index_builder \<Rightarrow> event list" where
  "persisted s = filter is_persist (trace s)"

section \<open>Augment\<close>

subsection \<open>Queries\<close>

text \<open>
  The query manager (package \<open>datamart.es_managers\<close>) is a collaborator: its clause
  builders return query bodies of a type \<open>'q\<close> left open, \<open>search\<close> an answer of a
  type \<open>'r\<close> left open (the matching documents, or its failure). The ratio of
  \<open>minimum_should_match\<close> is only handed on, its type \<open>'m\<close> is left open too.
\<close>

type_synonym kwargs = "(string \<times> string) list"

record ('q, 'r, 'm) query_manager =
  match_any :: "string \<Rightarrow> 'q"
  match_temporal_coverage :: "string option \<Rightarrow> string option \<Rightarrow> 'q"
  match_global_datamart_id :: "int \<Rightarrow> 'q"
  match_variable_datamart_id :: "int \<Rightarrow> 'q"
  match_key_value_pairs :: "(string \<times> string) list \<Rightarrow> 'q"
  match_some_terms_from_variables_array :: "string list \<Rightarrow> 'm option \<Rightarrow> 'q"
  form_conjunction_query :: "'q list \<Rightarrow> 'q"
  match_all :: "'q"
  search :: "'q \<Rightarrow> kwargs \<Rightarrow> 'r"

text \<open>\<open>col.unique().tolist()\<close>: the distinct cells in the order of first appearance.\<close>

fun unique :: "'a list \<Rightarrow> 'a list" where
  "unique [] = []"
| "unique (x # xs) = x # unique (filter (\<lambda>y. y \<noteq> x) xs)"

definition query_all :: "('q, 'r, 'm) query_manager \<Rightarrow> kwargs \<Rightarrow> 'r" where
  "query_all qm kw = search qm (match_all qm) kw"

text \<open>
  Each \<open>if\<close> of \<open>query\<close> tests truthiness: a string that is \<open>None\<close> or empty, an id
  that is \<open>None\<close> or \<open>0\<close> and a list that is \<open>None\<close> or empty add no clause; the
  column is tested with \<open>is not None\<close>. With no clause, \<open>_query_all\<close> is called
  without the keyword arguments.
\<close>

definition query ::
  "('q, 'r, 'm) query_manager \<Rightarrow> series option \<Rightarrow> 'm option \<Rightarrow> string option \<Rightarrow> string option
     \<Rightarrow> string option \<Rightarrow> int option \<Rightarrow> int option \<Rightarrow> (string \<times> string) list option \<Rightarrow> kwargs \<Rightarrow> 'r" where
  "query qm col minimum_should_match_ratio_for_col query_string temporal_coverage_start
       temporal_coverage_end global_datamart_id variable_datamart_id key_value_pairs kw =
     (let queries =
        (if query_string \<noteq> None \<and> query_string \<noteq> Some [] then
           [match_any qm (the query_string)] else [])
        @ (if (temporal_coverage_start \<noteq> None \<and> temporal_coverage_start \<noteq> Some [])
              \<or> (temporal_coverage_end \<noteq> None \<and> temporal_coverage_end \<noteq> Some []) then
             [match_temporal_coverage qm temporal_coverage_start temporal_coverage_end] else [])
        @ (if global_datamart_id \<noteq> None \<and> global_datamart_id \<noteq> Some 0 then
             [match_global_datamart_id qm (the global_datamart_id)] else [])
        @ (if variable_datamart_id \<noteq> None \<and> variable_datamart_id \<noteq> Some 0 then
             [match_variable_datamart_id qm (the variable_datamart_id)] else [])
        @ (if key_value_pairs \<noteq> None \<and> key_value_pairs \<noteq> Some [] then
             [match_key_value_pairs qm (the key_value_pairs)] else [])
        @ (case col of
             Some c \<Rightarrow>
               [match_some_terms_from_variables_array qm (unique c) minimum_should_match_ratio_for_col]
           | None \<Rightarrow> [])
      in if queries = [] then query_all qm [] else search qm (form_conjunction_query qm queries) kw)"

subsection \<open>Joins\<close>

text \<open>
  A joiner is its \<open>join\<close> method, which returns a table or raises.
  \<open>JoinerPrepare.prepare_joiner\<close> (package \<open>datamart.joiners\<close>) returns a joiner or
  \<open>None\<close>; the two functions of \<open>Utils\<close> return metadata or raise.
\<close>

type_synonym joiner =
  "dataframe \<Rightarrow> dataframe \<Rightarrow> int list list \<Rightarrow> int list list
     \<Rightarrow> global_metadata option \<Rightarrow> global_metadata option \<Rightarrow> exn + dataframe"

record augment_env =
  prepare_joiner :: "string \<Rightarrow> joiner option"
  generate_metadata_from_dataframe :: "dataframe \<Rightarrow> exn + global_metadata"
  calculate_dsbox_features :: "dataframe \<Rightarrow> global_metadata option \<Rightarrow> exn + global_metadata option"

text \<open>The cache \<open>self.joiners\<close> and the warnings emitted so far.\<close>

record augment =
  joiners :: "string \<rightharpoonup> joiner option"
  warnings :: "string list"

definition augment_init :: augment where
  "augment_init = \<lparr>joiners = Map.empty, warnings = []\<rparr>"

definition no_joiner_warning :: string where
  "no_joiner_warning = ''No suitable joiner, return original dataframe''"

text \<open>
  Lines 149 to 152 of \<open>join\<close>: without metadata for the left table, it is generated
  from the table. (\<open>not left_metadata\<close> also holds for an empty dict; a metadata dict
  holds at least its \<open>datamart_id\<close>.)
\<close>

definition resolve_left_metadata ::
  "augment_env \<Rightarrow> dataframe \<Rightarrow> global_metadata option \<Rightarrow> exn + global_metadata option" where
  "resolve_left_metadata env left_df left_metadata =
     (if left_metadata = None then
        (case generate_metadata_from_dataframe env left_df of
           Inl e \<Rightarrow> Inl e
         | Inr m \<Rightarrow> Inr (Some m))
      else Inr left_metadata)"

definition join ::
  "augment_env \<Rightarrow> augment \<Rightarrow> dataframe \<Rightarrow> dataframe \<Rightarrow> int list list \<Rightarrow> int list list
     \<Rightarrow> global_metadata option \<Rightarrow> global_metadata option \<Rightarrow> string \<Rightarrow> augment \<times> (exn + dataframe)" where
  "join env a left_df right_df left_columns right_columns left_metadata right_metadata name =
     (let a1 = (if joiners a name = None
                then a\<lparr>joiners := (joiners a)(name \<mapsto> prepare_joiner env name)\<rparr>
                else a)
      in case joiners a1 name of
           None \<Rightarrow> (a1, Inl KeyError)
         | Some None \<Rightarrow> (a1\<lparr>warnings := warnings a1 @ [no_joiner_warning]\<rparr>, Inr left_df)
         | Some (Some j) \<Rightarrow>
             (case resolve_left_metadata env left_df left_metadata of
                Inl e \<Rightarrow> (a1, Inl e)
              | Inr left_metadata1 \<Rightarrow>
                  (case calculate_dsbox_features env left_df left_metadata1 of
                     Inl e \<Rightarrow> (a1, Inl e)
                   | Inr left_metadata2 \<Rightarrow>
                       (case calculate_dsbox_features env right_df right_metadata of
                          Inl e \<Rightarrow> (a1, Inl e)
                        | Inr right_metadata2 \<Rightarrow>
                            (a1, j left_df right_df left_columns right_columns
                                   left_metadata2 right_metadata2)))))"

text \<open>
  The cache holds, under a name, what \<open>prepare_joiner\<close> returns for it: \<open>join\<close> is
  the only writer of \<open>self.joiners\<close>.
\<close>

definition cache_ok :: "augment_env \<Rightarrow> augment \<Rightarrow> bool" where
  "cache_ok env a = (\<forall>name v. joiners a name = Some v \<longrightarrow> v = prepare_joiner env name)"

section \<open>Concrete collaborators\<close>

text \<open>
  A small world on which the functions can be run: the store exists and reports
  20000 as its highest id; the description \<open>d/a.json\<close> has no field and is rejected
  by the schema, every other description describes one column \<open>city\<close>; the
  materializer fails.
\<close>

definition demo_description :: description where
  "demo_description =
     \<lparr>d_fields = [(''title'', ''cities'')], variables = Some [[(''name'', ''city'')]]\<rparr>"

definition bad_description :: description where
  "bad_description = \<lparr>d_fields = [], variables = None\<rparr>"

definition demo_data :: dataframe where
  "demo_data = [[''NY'', ''LA'', ''NY'']]"

definition demo_env :: index_env where
  "demo_env =
     \<lparr>im_check_exists = (\<lambda>tr i. Inr True),
      im_create_index = (\<lambda>tr i. Inr ()),
      im_delete_index = (\<lambda>tr i. Inr ()),
      im_current_global_datamart_id = (\<lambda>tr i. Inr 20000),
      im_create_doc = (\<lambda>tr i t m n. Inr ()),
      im_update_doc = (\<lambda>tr i t m n. Inr ()),
      json_load = (\<lambda>tr p. if p = ''d/a.json'' then Inr bad_description else Inr demo_description),
      pd_read_csv = (\<lambda>tr p. Inr demo_data),
      utils_validate_schema =
        (\<lambda>tr x. case x of
                   Inl d \<Rightarrow> if d_fields d = [] then Inl (OtherError ''invalid description'') else Inr ()
                 | Inr m \<Rightarrow> Inr ()),
      utils_materialize = (\<lambda>tr d. Inl (OtherError ''no materializer'')),
      write_metadata = (\<lambda>tr f m md. Inr ()),
      os_listdir = (\<lambda>tr p. Inr [''a.json'', ''b.json'']),
      profile_column = (\<lambda>c d. Inr ''2 distinct values''),
      profile_table = (\<lambda>df. Inr ''3 rows'')\<rparr>"

text \<open>The same world with a schema that rejects every constructed metadata.\<close>

definition strict_env :: index_env where
  "strict_env =
     demo_env\<lparr>utils_validate_schema :=
       (\<lambda>tr x. case x of Inl d \<Rightarrow> Inr () | Inr m \<Rightarrow> Inl (OtherError ''invalid metadata''))\<rparr>"

text \<open>The same world with a store that reports \<open>-10000\<close> as its highest id.\<close>

definition negative_env :: index_env where
  "negative_env = demo_env\<lparr>im_current_global_datamart_id := (\<lambda>tr i. Inr (- 10000))\<rparr>"

text \<open>A builder whose counter has been synchronised with the store.\<close>

definition synced :: index_builder where
  "synced = \<lparr>current_global_index = Some 20000, trace = []\<rparr>"

text \<open>
  The number of columns of a dataset: of the declared variables when there are any,
  else of the data when there is data, else none.
\<close>

definition column_count :: "description \<Rightarrow> dataframe option \<Rightarrow> nat" where
  "column_count d data =
     (if variables d \<noteq> None \<and> variables d \<noteq> Some [] then length (the (variables d))
      else (case data of Some df \<Rightarrow> length df | None \<Rightarrow> 0))"

text \<open>
  The metadata that the description alone determines, for a dataset id: the
  description fields, one variable per declared variable with its declared fragment,
  and no statistics of the profiler anywhere.
\<close>

definition schema_only :: "description \<Rightarrow> int \<Rightarrow> global_metadata" where
  "schema_only d i =
     \<lparr>gm_datamart_id = i, gm_fields = d_fields d,
      gm_variables =
        map (\<lambda>p. construct_variable (snd p) (int (fst p) + i + 1))
          (enumerate_from0 (case variables d of None \<Rightarrow> [] | Some vs \<Rightarrow> vs)),
      gm_profile = None\<rparr>"

text \<open>
  A query manager whose bodies are the names of the clauses and whose search answers
  with the body and the keyword arguments it was given.
\<close>

definition demo_qm :: "(string list, string list \<times> kwargs, nat) query_manager" where
  "demo_qm =
     \<lparr>match_any = (\<lambda>q. [''any'']),
      match_temporal_coverage = (\<lambda>a b. [''temporal'']),
      match_global_datamart_id = (\<lambda>i. [''global'']),
      match_variable_datamart_id = (\<lambda>i. [''variable'']),
      match_key_value_pairs = (\<lambda>kv. [''kv'']),
      match_some_terms_from_variables_array = (\<lambda>ts m. ''terms'' # ts),
      form_conjunction_query = concat,
      match_all = [''all''],
      search = (\<lambda>q kw. (q, kw))\<rparr>"

text \<open>
  Joiners: \<open>default\<close> returns the left table followed by the right one, \<open>broken\<close>
  raises, no other name has an implementation.
\<close>

definition demo_augment_env :: augment_env where
  "demo_augment_env =
     \<lparr>prepare_joiner =
        (\<lambda>name. if name = ''default'' then Some (\<lambda>l r lc rc lm rm. Inr (l @ r))
                else if name = ''broken'' then Some (\<lambda>l r lc rc lm rm. Inl (OtherError ''join failed''))
                else None),
      generate_metadata_from_dataframe = (\<lambda>df. Inr (schema_only bad_description 0)),
      calculate_dsbox_features = (\<lambda>df m. Inr m)\<rparr>"

section \<open>Verified properties\<close>

subsection \<open>Unfolding on the concrete collaborators\<close>

lemmas demo_defs =
  demo_env_def demo_description_def bad_description_def demo_data_def synced_def init_def
  strict_env_def negative_env_def

lemmas run_defs =
  indexing_def indexing_read_def indexing_finish_def check_es_index_def sync_global_index_def
  read_data_def query_data_def save_data_def profile_def call_def emit_def
  construct_global_metadata_def resolve_datamart_id_def GLOBAL_INDEX_INTERVAL_def
  construct_global_def enumerate_from0_def construct_variable_metadata_def construct_variable_def
  iloc_column_def basic_profiling_column_def basic_profiling_entire_def add_variable_metadata_def
  updating_def no_variables_warning_def

lemmas bulk_defs = bulk_indexing_def endswith_def os_path_join_def bulk_data_path_def


subsection \<open>What each step leaves unchanged\<close>

lemma emit_counter [simp]: "current_global_index (emit ev s) = current_global_index s"
  by (simp add: emit_def)

lemma emit_trace [simp]: "trace (emit ev s) = trace s @ [ev]"
  by (simp add: emit_def)

lemma persisted_emit [simp]:
  "persisted (emit ev s) = persisted s @ (if is_persist ev then [ev] else [])"
  by (simp add: persisted_def)

lemma persisted_counter_update [simp]:
  "persisted (s\<lparr>current_global_index := c\<rparr>) = persisted s"
  by (simp add: persisted_def)

lemma resolve_datamart_id_state:
  "resolve_datamart_id s ow = (s1, r) \<Longrightarrow>
     persisted s1 = persisted s \<and> trace s1 = trace s"
  by (auto simp: resolve_datamart_id_def split: option.splits if_splits)

lemma construct_global_metadata_state:
  assumes "construct_global_metadata env s d data ow = (s', r)"
  shows "s' = fst (resolve_datamart_id s ow)
       \<or> s' = emit (Warn no_variables_warning) (fst (resolve_datamart_id s ow))"
proof -
  obtain s1 r1 where r: "resolve_datamart_id s ow = (s1, r1)"
    by (cases "resolve_datamart_id s ow")
  show ?thesis
  proof (cases r1)
    case (Inl e)
    with assms r show ?thesis by (simp add: construct_global_metadata_def)
  next
    case (Inr i)
    show ?thesis
    proof (cases "variables d \<noteq> None \<and> variables d \<noteq> Some []")
      case True
      with assms r Inr show ?thesis
        by (cases "add_variables env i data (construct_global d i) (enumerate_from0 (the (variables d)))";
            cases data)
          (auto simp: construct_global_metadata_def Let_def)
    next
      case False
      show ?thesis
      proof (cases data)
        case None
        with assms r Inr False show ?thesis
          by (auto simp: construct_global_metadata_def Let_def)
      next
        case (Some df)
        with assms r Inr False show ?thesis
          by (cases "add_variables env i data (construct_global d i)
                       (map (\<lambda>col_offset. (col_offset, [])) [0..<length df])")
            (auto simp: construct_global_metadata_def Let_def)
      qed
    qed
  qed
qed


lemma construct_global_metadata_keeps:
  "construct_global_metadata env s d data ow = (s', r) \<Longrightarrow> persisted s' = persisted s"
  using construct_global_metadata_state [of env s d data ow s' r]
    resolve_datamart_id_state [of s ow "fst (resolve_datamart_id s ow)" "snd (resolve_datamart_id s ow)"]
  by auto

lemma construct_global_metadata_counter:
  "construct_global_metadata env s d data ow = (s', r) \<Longrightarrow>
     current_global_index s' = current_global_index (fst (resolve_datamart_id s ow))"
  using construct_global_metadata_state [of env s d data ow s' r] by auto

lemma check_es_index_keeps:
  assumes "check_es_index env s i del = (s', r)"
  shows "current_global_index s' = current_global_index s \<and> persisted s' = persisted s"
proof -
  obtain s1 r1 where c: "call (CheckExists i) (\<lambda>tr. im_check_exists env tr i) s = (s1, r1)"
    by (cases "call (CheckExists i) (\<lambda>tr. im_check_exists env tr i) s")
  then have s1: "s1 = emit (CheckExists i) s" by (simp add: call_def)
  show ?thesis
  proof (cases r1)
    case (Inl e)
    with assms c s1 show ?thesis by (auto simp: check_es_index_def)
  next
    case (Inr ex)
    with assms c s1 show ?thesis
      by (cases "im_delete_index env (trace (emit (CheckExists i) s)) [i]")
        (auto simp: check_es_index_def call_def split: if_splits)
  qed
qed

lemma read_data_keeps:
  assumes "read_data env s p dp = (s', r)"
  shows "current_global_index s' = current_global_index s \<and> persisted s' = persisted s"
proof (cases "json_load env (trace s) p")
  case (Inl e)
  with assms show ?thesis by (auto simp: read_data_def call_def)
next
  case (Inr dd)
  show ?thesis
  proof (cases "utils_validate_schema env (trace (emit (JsonLoad p) s)) (Inl dd)")
    case (Inl e)
    with assms Inr show ?thesis by (auto simp: read_data_def call_def)
  next
    case v: (Inr u)
    with assms Inr show ?thesis
      by (cases "pd_read_csv env (trace (emit (ValidateSchema (Inl dd)) (emit (JsonLoad p) s))) (the dp)")
        (auto simp: read_data_def call_def split: if_splits)
  qed
qed

lemma query_data_keeps:
  assumes "query_data env s d data q = (s', r)"
  shows "current_global_index s' = current_global_index s \<and> persisted s' = persisted s"
proof (cases data)
  case (Some df)
  with assms show ?thesis by (auto simp: query_data_def)
next
  case None
  with assms show ?thesis
    by (cases "utils_materialize env (trace s) d")
      (auto simp: query_data_def call_def split: if_splits)
qed

lemma sync_global_index_keeps:
  assumes "sync_global_index env s i del = (s', r)"
  shows "persisted s' = persisted s"
  using assms
  by (cases "im_current_global_datamart_id env (trace s) i")
    (auto simp: sync_global_index_def call_def split: if_splits)

lemma indexing_read_keeps:
  assumes "indexing_read env s p i dp del = (s', r)"
  shows "persisted s' = persisted s"
proof -
  let ?s0 = "emit (Print (''==== Creating metadata and indexing for '' @ p)) s"
  obtain s1 r1 where c: "check_es_index env ?s0 i del = (s1, r1)"
    by (cases "check_es_index env ?s0 i del")
  from check_es_index_keeps [OF c] have p1: "persisted s1 = persisted s" by simp
  show ?thesis
  proof (cases r1)
    case (Inl e)
    with assms c p1 show ?thesis by (auto simp: indexing_read_def)
  next
    case (Inr u)
    obtain s2 r2 where y: "sync_global_index env s1 i del = (s2, r2)"
      by (cases "sync_global_index env s1 i del")
    from sync_global_index_keeps [OF y] p1 have p2: "persisted s2 = persisted s" by simp
    show ?thesis
    proof (cases r2)
      case (Inl e)
      with assms c Inr y p2 show ?thesis by (auto simp: indexing_read_def)
    next
      case r2: (Inr u2)
      with assms c Inr y have "read_data env s2 p dp = (s', r)" by (simp add: indexing_read_def)
      from read_data_keeps [OF this] p2 show ?thesis by simp
    qed
  qed
qed

subsection \<open>Identifiers\<close>

lemma construct_variable_metadata_id:
  "construct_variable_metadata env d i k data = Inr vm \<Longrightarrow> vm_datamart_id vm = int k + i + 1"
  by (auto simp: construct_variable_metadata_def construct_variable_def basic_profiling_column_def
        Let_def split: option.splits sum.splits)

lemma add_variables_ids:
  "add_variables env i data gm ps = Inr gm' \<Longrightarrow>
     map vm_datamart_id (gm_variables gm') =
       map vm_datamart_id (gm_variables gm) @ map (\<lambda>k. int k + i + 1) (map fst ps)
     \<and> gm_datamart_id gm' = gm_datamart_id gm"
proof (induction ps arbitrary: gm)
  case Nil
  then show ?case by simp
next
  case (Cons p ps)
  obtain k d where p: "p = (k, d)" by (cases p)
  from Cons.prems p obtain vm where
    vm: "construct_variable_metadata env d i k data = Inr vm" and
    rest: "add_variables env i data (add_variable_metadata gm vm) ps = Inr gm'"
    by (auto split: sum.splits)
  from Cons.IH [OF rest] construct_variable_metadata_id [OF vm] p
  show ?case by (simp add: add_variable_metadata_def)
qed

lemma resolve_datamart_id_cases:
  "resolve_datamart_id s ow = (s1, Inr i) \<Longrightarrow>
     (if ow = None \<or> ow = Some 0
      then (\<exists>c. current_global_index s = Some c \<and> i = c + GLOBAL_INDEX_INTERVAL
              \<and> s1 = s\<lparr>current_global_index := Some i\<rparr>)
      else ow = Some i \<and> s1 = s)"
  by (auto simp: resolve_datamart_id_def split: option.splits if_splits)

lemma construct_global_metadata_result:
  assumes "construct_global_metadata env s d data ow = (s', Inr m)"
  shows "\<exists>s1 i. resolve_datamart_id s ow = (s1, Inr i) \<and> gm_datamart_id m = i
           \<and> current_global_index s' = current_global_index s1
           \<and> map vm_datamart_id (gm_variables m) =
               map (\<lambda>k. int k + i + 1) [0..<column_count d data]"
proof -
  obtain s1 r where r: "resolve_datamart_id s ow = (s1, r)" by (cases "resolve_datamart_id s ow")
  with assms obtain i where i: "r = Inr i"
    by (cases r) (auto simp: construct_global_metadata_def)
  show ?thesis
  proof (cases "variables d \<noteq> None \<and> variables d \<noteq> Some []")
    case True
    with assms r i obtain gm where
      gm: "add_variables env i data (construct_global d i) (enumerate_from0 (the (variables d))) = Inr gm"
      and fin: "(case data of None \<Rightarrow> (s1, Inr gm) | Some df \<Rightarrow> (s1, basic_profiling_entire env gm df)) = (s', Inr m)"
      by (auto simp: construct_global_metadata_def Let_def split: sum.splits)
    from fin have m: "gm_variables m = gm_variables gm" "gm_datamart_id m = gm_datamart_id gm" "s' = s1"
      by (auto simp: basic_profiling_entire_def split: option.splits sum.splits)
    from add_variables_ids [OF gm] m True r i show ?thesis
      by (simp add: construct_global_def enumerate_from0_def column_count_def)
  next
    case False
    show ?thesis
    proof (cases data)
      case None
      with assms r i False have "m = construct_global d i" "current_global_index s' = current_global_index s1"
        by (auto simp: construct_global_metadata_def Let_def emit_def)
      with None False r i show ?thesis
        by (auto simp: construct_global_def column_count_def)
    next
      case (Some df)
      with assms r i False obtain gm where
        gm: "add_variables env i data (construct_global d i) (map (\<lambda>k. (k, [])) [0..<length df]) = Inr gm"
        and fin: "basic_profiling_entire env gm df = Inr m" and s': "s' = s1"
        by (auto simp: construct_global_metadata_def Let_def split: sum.splits)
      from fin have m: "gm_variables m = gm_variables gm" "gm_datamart_id m = gm_datamart_id gm"
        by (auto simp: basic_profiling_entire_def split: sum.splits)
      from add_variables_ids [OF gm] m Some False r i s' show ?thesis
        by (auto simp: construct_global_def column_count_def comp_def)
    qed
  qed
qed

lemma demo_construct:
  "construct_global_metadata demo_env synced demo_description (Some demo_data) None =
     (synced\<lparr>current_global_index := Some 30000\<rparr>,
      Inr \<lparr>gm_datamart_id = 30000, gm_fields = [(''title'', ''cities'')],
           gm_variables = [\<lparr>vm_datamart_id = 30001, vm_description = [(''name'', ''city'')],
                             vm_profile = Some ''2 distinct values''\<rparr>],
           gm_profile = Some ''3 rows''\<rparr>)"
  by (simp add: construct_global_metadata_def resolve_datamart_id_def synced_def demo_env_def
        demo_description_def demo_data_def GLOBAL_INDEX_INTERVAL_def construct_global_def
        enumerate_from0_def construct_variable_metadata_def construct_variable_def
        iloc_column_def basic_profiling_column_def basic_profiling_entire_def
        add_variable_metadata_def)

text \<open>
  C3. When \<open>construct_global_metadata\<close> returns the metadata of a dataset with id
  \<open>D\<close> and \<open>k\<close> columns (the declared variables, else the columns of the data), the
  ids of its variables are, in column order, \<open>D + 1, \<dots>, D + k\<close>: the column at
  offset \<open>i\<close> has id \<open>i + D + 1\<close>, and the set of the ids is \<open>{D + 1 .. D + k}\<close>.
\<close>

theorem construct_global_metadata_variable_ids:
  assumes "construct_global_metadata env s d data overwrite_datamart_id = (s', Inr metadata)"
  shows "length (gm_variables metadata) = column_count d data
       \<and> map vm_datamart_id (gm_variables metadata) =
           map (\<lambda>col_offset. int col_offset + gm_datamart_id metadata + 1) [0..<column_count d data]
       \<and> vm_datamart_id ` set (gm_variables metadata) =
           {gm_datamart_id metadata + 1 .. gm_datamart_id metadata + int (column_count d data)}"
proof -
  from construct_global_metadata_result [OF assms]
  have ids: "map vm_datamart_id (gm_variables metadata) =
      map (\<lambda>k. int k + gm_datamart_id metadata + 1) [0..<column_count d data]"
    by auto
  from arg_cong [OF ids, of length] have len: "length (gm_variables metadata) = column_count d data"
    by simp
  from arg_cong [OF ids, of set]
  have "vm_datamart_id ` set (gm_variables metadata) =
      (\<lambda>k. int k + gm_datamart_id metadata + 1) ` {0..<column_count d data}"
    by simp
  also have "\<dots> = {gm_datamart_id metadata + 1 .. gm_datamart_id metadata + int (column_count d data)}"
  proof (rule set_eqI, rule iffI)
    fix x assume "x \<in> (\<lambda>k. int k + gm_datamart_id metadata + 1) ` {0..<column_count d data}"
    then show "x \<in> {gm_datamart_id metadata + 1 .. gm_datamart_id metadata + int (column_count d data)}"
      by auto
  next
    fix x assume x: "x \<in> {gm_datamart_id metadata + 1 .. gm_datamart_id metadata + int (column_count d data)}"
    then have "nat (x - gm_datamart_id metadata - 1) \<in> {0..<column_count d data}"
      and "x = int (nat (x - gm_datamart_id metadata - 1)) + gm_datamart_id metadata + 1"
      by auto
    then show "x \<in> (\<lambda>k. int k + gm_datamart_id metadata + 1) ` {0..<column_count d data}"
      by (rule_tac image_eqI)
  qed
  finally show ?thesis using ids len by simp
qed

theorem construct_global_metadata_variable_ids_witness:
  "construct_global_metadata demo_env synced demo_description (Some demo_data) None =
     (synced\<lparr>current_global_index := Some 30000\<rparr>,
      Inr \<lparr>gm_datamart_id = 30000, gm_fields = [(''title'', ''cities'')],
           gm_variables = [\<lparr>vm_datamart_id = 30001, vm_description = [(''name'', ''city'')],
                             vm_profile = Some ''2 distinct values''\<rparr>],
           gm_profile = Some ''3 rows''\<rparr>)
   \<and> column_count demo_description (Some demo_data) = 1
   \<and> map vm_datamart_id
        [\<lparr>vm_datamart_id = 30001, vm_description = [(''name'', ''city'')],
           vm_profile = Some ''2 distinct values''\<rparr>] = [30000 + 1]"
  using construct_global_metadata_variable_ids [OF demo_construct] demo_construct
  by (simp add: column_count_def demo_description_def)

text \<open>
  Two direct calls of \<open>construct_global_metadata\<close> without an overwrite id, the
  second in the state the first has left: the second id is the first plus
  \<open>GLOBAL_INDEX_INTERVAL\<close>, and after each the counter is the id just assigned.
\<close>

lemma successive_constructions:
  assumes "construct_global_metadata env s d1 data1 None = (s1, Inr m1)"
    and "construct_global_metadata env s1 d2 data2 None = (s2, Inr m2)"
  shows "gm_datamart_id m2 = gm_datamart_id m1 + GLOBAL_INDEX_INTERVAL
       \<and> GLOBAL_INDEX_INTERVAL = 10000
       \<and> gm_datamart_id m1 \<noteq> gm_datamart_id m2
       \<and> gm_datamart_id m1 < gm_datamart_id m2
       \<and> current_global_index s1 = Some (gm_datamart_id m1)
       \<and> current_global_index s2 = Some (gm_datamart_id m2)"
proof -
  from construct_global_metadata_result [OF assms(1)] resolve_datamart_id_cases [of s None]
  have 1: "current_global_index s1 = Some (gm_datamart_id m1)"
    by auto
  from construct_global_metadata_result [OF assms(2)] resolve_datamart_id_cases [of s1 None] 1
  have 2: "current_global_index s2 = Some (gm_datamart_id m2)"
    "gm_datamart_id m2 = gm_datamart_id m1 + GLOBAL_INDEX_INTERVAL"
    by auto
  from 1 2 show ?thesis by (simp add: GLOBAL_INDEX_INTERVAL_def)
qed

lemma demo_construct_second:
  "construct_global_metadata demo_env (synced\<lparr>current_global_index := Some 30000\<rparr>)
       demo_description (Some demo_data) None =
     (synced\<lparr>current_global_index := Some 40000\<rparr>,
      Inr \<lparr>gm_datamart_id = 40000, gm_fields = [(''title'', ''cities'')],
           gm_variables = [\<lparr>vm_datamart_id = 40001, vm_description = [(''name'', ''city'')],
                             vm_profile = Some ''2 distinct values''\<rparr>],
           gm_profile = Some ''3 rows''\<rparr>)"
  by (simp add: construct_global_metadata_def resolve_datamart_id_def synced_def demo_env_def
        demo_description_def demo_data_def GLOBAL_INDEX_INTERVAL_def construct_global_def
        enumerate_from0_def construct_variable_metadata_def construct_variable_def
        iloc_column_def basic_profiling_column_def basic_profiling_entire_def
        add_variable_metadata_def)

lemma successive_constructions_demo:
  "construct_global_metadata demo_env synced demo_description (Some demo_data) None =
     (synced\<lparr>current_global_index := Some 30000\<rparr>,
      Inr \<lparr>gm_datamart_id = 30000, gm_fields = [(''title'', ''cities'')],
           gm_variables = [\<lparr>vm_datamart_id = 30001, vm_description = [(''name'', ''city'')],
                             vm_profile = Some ''2 distinct values''\<rparr>],
           gm_profile = Some ''3 rows''\<rparr>)
   \<and> (40000::int) = 30000 + GLOBAL_INDEX_INTERVAL
   \<and> current_global_index (synced\<lparr>current_global_index := Some 40000\<rparr>) = Some 40000"
  using successive_constructions [OF demo_construct demo_construct_second] demo_construct
  by simp


lemma overwrite_zero_resolve: "resolve_datamart_id s (Some 0) = resolve_datamart_id s None"
  by (simp add: resolve_datamart_id_def)

lemma stage_InrE:
  assumes "(case stage of (s1, Inl e) \<Rightarrow> (s1, Inl e) | (s1, Inr x) \<Rightarrow> g s1 x) = (s', Inr m)"
  obtains s1 x where "stage = (s1, Inr x)" and "g s1 x = (s', Inr m)"
  using assms by (cases stage; cases "snd stage") auto

lemma call_InrE:
  assumes "(case call ev f s of (s1, Inl e) \<Rightarrow> (s1, Inl e) | (s1, Inr x) \<Rightarrow> g s1 x) = (s', Inr m)"
  obtains x where "f (trace s) = Inr x" and "g (emit ev s) x = (s', Inr m)"
  using assms by (cases "f (trace s)") (auto simp: call_def)

lemma updating_returns:
  assumes "updating env s description_path es_index document_id data_path q = (s', Inr m)"
  shows "\<exists>s3 s4 dd data'. current_global_index s3 = current_global_index s
           \<and> persisted s3 = persisted s
           \<and> construct_global_metadata env s3 dd data' (Some document_id) = (s4, Inr m)
           \<and> current_global_index s' = current_global_index s4"
proof -
  from assms [unfolded updating_def] obtain s1 u where
    1: "check_es_index env s es_index False = (s1, Inr u)" and
    k1: "(case read_data env s1 description_path data_path of
            (s2, Inl e) \<Rightarrow> (s2, Inl e)
          | (s2, Inr x) \<Rightarrow>
              (case x of (d, data) \<Rightarrow>
                (case query_data env s2 d data q of
                  (s3, Inl e) \<Rightarrow> (s3, Inl e)
                | (s3, Inr data') \<Rightarrow>
                    (case construct_global_metadata env s3 d data' (Some document_id) of
                       (s4, Inl e) \<Rightarrow> (s4, Inl e)
                     | (s4, Inr metadata) \<Rightarrow>
                         (case call (ValidateSchema (Inr metadata))
                                 (\<lambda>tr. utils_validate_schema env tr (Inr metadata)) s4 of
                            (s5, Inl e) \<Rightarrow> (s5, Inl e)
                          | (s5, Inr u) \<Rightarrow>
                              (case call (UpdateDoc es_index ''document'' metadata (gm_datamart_id metadata))
                                      (\<lambda>tr. im_update_doc env tr es_index ''document'' metadata
                                               (gm_datamart_id metadata)) s5 of
                                 (s6, Inl e) \<Rightarrow> (s6, Inl e)
                               | (s6, Inr u) \<Rightarrow> (s6, Inr metadata))))))) = (s', Inr m)"
    by (rule stage_InrE)
  from k1 obtain s2 x where
    2: "read_data env s1 description_path data_path = (s2, Inr x)" and
    k2: "(case x of (d, data) \<Rightarrow>
                (case query_data env s2 d data q of
                  (s3, Inl e) \<Rightarrow> (s3, Inl e)
                | (s3, Inr data') \<Rightarrow>
                    (case construct_global_metadata env s3 d data' (Some document_id) of
                       (s4, Inl e) \<Rightarrow> (s4, Inl e)
                     | (s4, Inr metadata) \<Rightarrow>
                         (case call (ValidateSchema (Inr metadata))
                                 (\<lambda>tr. utils_validate_schema env tr (Inr metadata)) s4 of
                            (s5, Inl e) \<Rightarrow> (s5, Inl e)
                          | (s5, Inr u) \<Rightarrow>
                              (case call (UpdateDoc es_index ''document'' metadata (gm_datamart_id metadata))
                                      (\<lambda>tr. im_update_doc env tr es_index ''document'' metadata
                                               (gm_datamart_id metadata)) s5 of
                                 (s6, Inl e) \<Rightarrow> (s6, Inl e)
                               | (s6, Inr u) \<Rightarrow> (s6, Inr metadata)))))) = (s', Inr m)"
    by (rule stage_InrE)
  obtain dd data where x: "x = (dd, data)" by (cases x)
  from k2 [unfolded x prod.case] obtain s3 data' where
    3: "query_data env s2 dd data q = (s3, Inr data')" and
    k3: "(case construct_global_metadata env s3 dd data' (Some document_id) of
                       (s4, Inl e) \<Rightarrow> (s4, Inl e)
                     | (s4, Inr metadata) \<Rightarrow>
                         (case call (ValidateSchema (Inr metadata))
                                 (\<lambda>tr. utils_validate_schema env tr (Inr metadata)) s4 of
                            (s5, Inl e) \<Rightarrow> (s5, Inl e)
                          | (s5, Inr u) \<Rightarrow>
                              (case call (UpdateDoc es_index ''document'' metadata (gm_datamart_id metadata))
                                      (\<lambda>tr. im_update_doc env tr es_index ''document'' metadata
                                               (gm_datamart_id metadata)) s5 of
                                 (s6, Inl e) \<Rightarrow> (s6, Inl e)
                               | (s6, Inr u) \<Rightarrow> (s6, Inr metadata)))) = (s', Inr m)"
    by (rule stage_InrE)
  from k3 obtain s4 m4 where
    4: "construct_global_metadata env s3 dd data' (Some document_id) = (s4, Inr m4)" and
    k4: "(case call (ValidateSchema (Inr m4))
                                 (\<lambda>tr. utils_validate_schema env tr (Inr m4)) s4 of
                            (s5, Inl e) \<Rightarrow> (s5, Inl e)
                          | (s5, Inr u) \<Rightarrow>
                              (case call (UpdateDoc es_index ''document'' m4 (gm_datamart_id m4))
                                      (\<lambda>tr. im_update_doc env tr es_index ''document'' m4
                                               (gm_datamart_id m4)) s5 of
                                 (s6, Inl e) \<Rightarrow> (s6, Inl e)
                               | (s6, Inr u) \<Rightarrow> (s6, Inr m4))) = (s', Inr m)"
    by (rule stage_InrE)
  from k4 obtain u5 where
    k5: "(case call (UpdateDoc es_index ''document'' m4 (gm_datamart_id m4))
                                      (\<lambda>tr. im_update_doc env tr es_index ''document'' m4
                                               (gm_datamart_id m4)) (emit (ValidateSchema (Inr m4)) s4) of
                                 (s6, Inl e) \<Rightarrow> (s6, Inl e)
                               | (s6, Inr u) \<Rightarrow> (s6, Inr m4)) = (s', Inr m)"
    by (rule call_InrE)
  from k5 have
    "(emit (UpdateDoc es_index ''document'' m4 (gm_datamart_id m4)) (emit (ValidateSchema (Inr m4)) s4), Inr m4)
       = (s', Inr m :: exn + global_metadata)"
    by (rule call_InrE) assumption
  then have fin: "m4 = m" "current_global_index s' = current_global_index s4"
    by auto
  from check_es_index_keeps [OF 1] read_data_keeps [OF 2] query_data_keeps [OF 3]
  have "current_global_index s3 = current_global_index s \<and> persisted s3 = persisted s" by simp
  with 4 fin show ?thesis by blast
qed

lemma construct_fresh_id:
  assumes "construct_global_metadata env s d data ow = (s', Inr m)" and "ow = None \<or> ow = Some 0"
  shows "\<exists>c. current_global_index s = Some c \<and> gm_datamart_id m = c + GLOBAL_INDEX_INTERVAL
              \<and> current_global_index s' = Some (c + GLOBAL_INDEX_INTERVAL)"
proof -
  from construct_global_metadata_result [OF assms(1)] obtain s1 i where
    r: "resolve_datamart_id s ow = (s1, Inr i)" and i: "gm_datamart_id m = i" and
    c: "current_global_index s' = current_global_index s1"
    by blast
  from resolve_datamart_id_cases [OF r] assms(2) obtain c0 where
    "current_global_index s = Some c0" "i = c0 + GLOBAL_INDEX_INTERVAL"
    "s1 = s\<lparr>current_global_index := Some i\<rparr>"
    by auto
  with i c show ?thesis by simp
qed

lemma construct_uninitialised:
  assumes "current_global_index s = None" and "ow = None \<or> ow = Some 0"
  shows "construct_global_metadata env s d data ow = (s, Inl TypeError)"
  using assms by (auto simp: construct_global_metadata_def resolve_datamart_id_def)

text \<open>
  C10, as it holds for the code. An overwrite id of \<open>0\<close> is treated as absent: the
  construction is the one without an overwrite id. With a counter \<open>c\<close> the counter
  is advanced to \<open>c + GLOBAL_INDEX_INTERVAL\<close>, and metadata that is returned (by
  \<open>construct_global_metadata\<close>, or by \<open>updating\<close> with document id \<open>0\<close>)
  carries this fresh id instead of \<open>0\<close>. While the counter is still \<open>None\<close> the
  increment raises \<open>TypeError\<close> and the builder is left as it was.
\<close>

theorem overwrite_zero_is_absent:
  "construct_global_metadata env s d data (Some 0) = construct_global_metadata env s d data None
   \<and> (\<forall>c. current_global_index s = Some c \<longrightarrow>
         current_global_index (fst (construct_global_metadata env s d data (Some 0)))
           = Some (c + GLOBAL_INDEX_INTERVAL))
   \<and> (\<forall>s' m. construct_global_metadata env s d data (Some 0) = (s', Inr m) \<longrightarrow>
         (\<exists>c. current_global_index s = Some c \<and> gm_datamart_id m = c + GLOBAL_INDEX_INTERVAL
              \<and> current_global_index s' = Some (c + GLOBAL_INDEX_INTERVAL)))
   \<and> (\<forall>s' m. updating env s description_path es_index 0 data_path query_data_for_updating = (s', Inr m) \<longrightarrow>
         (\<exists>c. current_global_index s = Some c \<and> gm_datamart_id m = c + GLOBAL_INDEX_INTERVAL
              \<and> current_global_index s' = Some (c + GLOBAL_INDEX_INTERVAL)))
   \<and> (current_global_index s = None \<longrightarrow>
         construct_global_metadata env s d data (Some 0) = (s, Inl TypeError))"
proof (intro conjI allI impI)
  show "construct_global_metadata env s d data (Some 0) = construct_global_metadata env s d data None"
    by (simp add: construct_global_metadata_def overwrite_zero_resolve)
next
  fix c assume c: "current_global_index s = Some c"
  obtain s' r where e: "construct_global_metadata env s d data (Some 0) = (s', r)"
    by (cases "construct_global_metadata env s d data (Some 0)")
  from construct_global_metadata_counter [OF e] c
  have "current_global_index s' = Some (c + GLOBAL_INDEX_INTERVAL)"
    by (simp add: resolve_datamart_id_def)
  with e show "current_global_index (fst (construct_global_metadata env s d data (Some 0)))
           = Some (c + GLOBAL_INDEX_INTERVAL)"
    by simp
next
  fix s' m assume "construct_global_metadata env s d data (Some 0) = (s', Inr m)"
  then show "\<exists>c. current_global_index s = Some c \<and> gm_datamart_id m = c + GLOBAL_INDEX_INTERVAL
              \<and> current_global_index s' = Some (c + GLOBAL_INDEX_INTERVAL)"
    by (rule construct_fresh_id) simp
next
  fix s' m assume "updating env s description_path es_index 0 data_path query_data_for_updating = (s', Inr m)"
  from updating_returns [OF this] obtain s3 s4 dd data' where
    3: "current_global_index s3 = current_global_index s" and
    4: "construct_global_metadata env s3 dd data' (Some 0) = (s4, Inr m)" and
    5: "current_global_index s' = current_global_index s4"
    by blast
  from construct_fresh_id [OF 4] 3 5
  show "\<exists>c. current_global_index s = Some c \<and> gm_datamart_id m = c + GLOBAL_INDEX_INTERVAL
              \<and> current_global_index s' = Some (c + GLOBAL_INDEX_INTERVAL)"
    by simp
next
  assume "current_global_index s = None"
  then show "construct_global_metadata env s d data (Some 0) = (s, Inl TypeError)"
    by (rule construct_uninitialised) simp
qed

lemma demo_updating_zero:
  "updating demo_env synced ''d/b.json'' ''idx'' 0 None False =
     (\<lparr>current_global_index = Some 30000,
       trace = [CheckExists ''idx'', JsonLoad ''d/b.json'', ValidateSchema (Inl demo_description),
                ValidateSchema (Inr (schema_only demo_description 30000)),
                UpdateDoc ''idx'' ''document'' (schema_only demo_description 30000) 30000]\<rparr>,
      Inr (schema_only demo_description 30000))"
  by (simp add: run_defs demo_defs schema_only_def)

theorem overwrite_zero_is_absent_witness:
  "current_global_index synced = Some 20000
   \<and> construct_global_metadata demo_env synced demo_description (Some demo_data) (Some 0) =
     (synced\<lparr>current_global_index := Some 30000\<rparr>,
      Inr \<lparr>gm_datamart_id = 30000, gm_fields = [(''title'', ''cities'')],
           gm_variables = [\<lparr>vm_datamart_id = 30001, vm_description = [(''name'', ''city'')],
                             vm_profile = Some ''2 distinct values''\<rparr>],
           gm_profile = Some ''3 rows''\<rparr>)
   \<and> (30000 :: int) = 20000 + GLOBAL_INDEX_INTERVAL
   \<and> snd (updating demo_env synced ''d/b.json'' ''idx'' 0 None False)
       = Inr (schema_only demo_description (20000 + GLOBAL_INDEX_INTERVAL))"
proof -
  note t = overwrite_zero_is_absent [of demo_env synced demo_description "Some demo_data"
      "''d/b.json''" "''idx''" None False]
  from t have "construct_global_metadata demo_env synced demo_description (Some demo_data) (Some 0) =
      construct_global_metadata demo_env synced demo_description (Some demo_data) None"
    by blast
  with demo_construct demo_updating_zero show ?thesis
    by (simp add: synced_def GLOBAL_INDEX_INTERVAL_def)
qed

text \<open>
  The claim as stated, for every call, fails on a builder that has not been
  synchronised: \<open>updating\<close> never synchronises the counter, so on a new builder
  \<open>updating\<close> with document id \<open>0\<close> raises \<open>TypeError\<close>; no counter is advanced
  and no id is assigned.
\<close>

theorem overwrite_zero_uninitialised_counterexample:
  "current_global_index init = None
   \<and> construct_global_metadata demo_env init demo_description None (Some 0) = (init, Inl TypeError)
   \<and> updating demo_env init ''d/b.json'' ''idx'' 0 None False =
     (\<lparr>current_global_index = None,
       trace = [CheckExists ''idx'', JsonLoad ''d/b.json'', ValidateSchema (Inl demo_description)]\<rparr>,
      Inl TypeError)"
  by (simp add: run_defs demo_defs)

subsection \<open>Data supplied by path\<close>

lemma read_data_with_path:
  assumes "data_path \<noteq> None" and "data_path \<noteq> Some []"
    and "read_data env s p data_path = (s', Inr (d, data))"
  shows "data \<noteq> None"
proof (cases "json_load env (trace s) p")
  case (Inl e)
  with assms(3) show ?thesis by (auto simp: read_data_def call_def)
next
  case (Inr dd)
  show ?thesis
  proof (cases "utils_validate_schema env (trace (emit (JsonLoad p) s)) (Inl dd)")
    case (Inl e)
    with assms(3) Inr show ?thesis by (auto simp: read_data_def call_def)
  next
    case v: (Inr u)
    with assms Inr show ?thesis
      by (cases "pd_read_csv env (trace (emit (ValidateSchema (Inl dd)) (emit (JsonLoad p) s))) (the data_path)")
        (auto simp: read_data_def call_def)
  qed
qed

lemma indexing_read_with_path:
  assumes "data_path \<noteq> None" and "data_path \<noteq> Some []"
    and "indexing_read env s p i data_path del = (s', Inr (d, data))"
  shows "data \<noteq> None"
proof -
  from assms(3) [unfolded indexing_read_def] obtain s1 u where
    k1: "(case sync_global_index env s1 i del of
            (s2, Inl e) \<Rightarrow> (s2, Inl e)
          | (s2, Inr u) \<Rightarrow> read_data env s2 p data_path) = (s', Inr (d, data))"
    by (rule stage_InrE)
  from k1 obtain s2 u2 where "read_data env s2 p data_path = (s', Inr (d, data))"
    by (rule stage_InrE)
  from read_data_with_path [OF assms(1,2) this] show ?thesis .
qed

lemma indexing_with_path:
  assumes "data_path \<noteq> None" and "data_path \<noteq> Some []"
  shows "indexing env s p i data_path q stf mode del =
          (case indexing_read env s p i data_path del of
             (s1, Inl e) \<Rightarrow> (s1, Inl e)
           | (s1, Inr x) \<Rightarrow> (s1, Inl ValueError))"
proof -
  obtain s1 r1 where r: "indexing_read env s p i data_path del = (s1, r1)"
    by (cases "indexing_read env s p i data_path del")
  show ?thesis
  proof (cases r1)
    case (Inl e)
    with r show ?thesis by (simp add: indexing_def)
  next
    case (Inr x)
    obtain d data where x: "x = (d, data)" by (cases x)
    from r Inr x have "indexing_read env s p i data_path del = (s1, Inr (d, data))" by simp
    from indexing_read_with_path [OF assms this] obtain df where "data = Some df" by auto
    with r Inr x show ?thesis by (simp add: indexing_def query_data_def)
  qed
qed

lemma updating_with_path:
  assumes "data_path \<noteq> None" and "data_path \<noteq> Some []"
  shows "updating env s p i document_id data_path q =
          (case check_es_index env s i False of
             (s1, Inl e) \<Rightarrow> (s1, Inl e)
           | (s1, Inr u) \<Rightarrow>
               (case read_data env s1 p data_path of
                  (s2, Inl e) \<Rightarrow> (s2, Inl e)
                | (s2, Inr x) \<Rightarrow> (s2, Inl ValueError)))"
proof -
  obtain s1 r1 where c: "check_es_index env s i False = (s1, r1)"
    by (cases "check_es_index env s i False")
  show ?thesis
  proof (cases r1)
    case (Inl e)
    with c show ?thesis by (simp add: updating_def)
  next
    case (Inr u)
    obtain s2 r2 where r: "read_data env s1 p data_path = (s2, r2)"
      by (cases "read_data env s1 p data_path")
    show ?thesis
    proof (cases r2)
      case (Inl e)
      with c Inr r show ?thesis by (simp add: updating_def)
    next
      case rr: (Inr x)
      obtain d data where x: "x = (d, data)" by (cases x)
      from r rr x have "read_data env s1 p data_path = (s2, Inr (d, data))" by simp
      from read_data_with_path [OF assms this] obtain df where "data = Some df" by auto
      with c Inr r rr x show ?thesis by (simp add: updating_def query_data_def)
    qed
  qed
qed

text \<open>
  C2, as it holds for the code. When \<open>indexing\<close> or \<open>updating\<close> is called with a data path
  that is neither \<open>None\<close> nor the empty string, the call ends with an exception at
  the test \<open>not data\<close> at the latest: either a step up to \<open>_read_data\<close> raises, or
  \<open>_read_data\<close> returns a DataFrame and the test raises \<open>ValueError\<close>. No metadata
  is constructed, and nothing reaches the mirror file or the documents of the store.
\<close>

theorem data_path_supplied_fails:
  assumes "data_path \<noteq> None" and "data_path \<noteq> Some []"
  shows "indexing env s description_path es_index data_path query_data_for_indexing
             save_to_file save_to_file_mode delete_old_es_index =
           (case indexing_read env s description_path es_index data_path delete_old_es_index of
              (s1, Inl e) \<Rightarrow> (s1, Inl e)
            | (s1, Inr x) \<Rightarrow> (s1, Inl ValueError))
       \<and> isl (snd (indexing env s description_path es_index data_path query_data_for_indexing
             save_to_file save_to_file_mode delete_old_es_index))
       \<and> persisted (fst (indexing env s description_path es_index data_path query_data_for_indexing
             save_to_file save_to_file_mode delete_old_es_index)) = persisted s
       \<and> updating env s description_path es_index document_id data_path query_data_for_updating =
           (case check_es_index env s es_index False of
              (s1, Inl e) \<Rightarrow> (s1, Inl e)
            | (s1, Inr u) \<Rightarrow>
                (case read_data env s1 description_path data_path of
                   (s2, Inl e) \<Rightarrow> (s2, Inl e)
                 | (s2, Inr x) \<Rightarrow> (s2, Inl ValueError)))
       \<and> isl (snd (updating env s description_path es_index document_id data_path query_data_for_updating))
       \<and> persisted (fst (updating env s description_path es_index document_id data_path
             query_data_for_updating)) = persisted s
       \<and> current_global_index (fst (updating env s description_path es_index document_id data_path
             query_data_for_updating)) = current_global_index s"
proof -
  let ?i = "indexing env s description_path es_index data_path query_data_for_indexing
             save_to_file save_to_file_mode delete_old_es_index"
  let ?u = "updating env s description_path es_index document_id data_path query_data_for_updating"
  note ie = indexing_with_path [OF assms, of env s description_path es_index query_data_for_indexing
             save_to_file save_to_file_mode delete_old_es_index]
  note ue = updating_with_path [OF assms, of env s description_path es_index document_id
             query_data_for_updating]
  obtain s1 r1 where r: "indexing_read env s description_path es_index data_path delete_old_es_index = (s1, r1)"
    by (cases "indexing_read env s description_path es_index data_path delete_old_es_index")
  from indexing_read_keeps [OF r] have p1: "persisted s1 = persisted s" .
  from ie r have "fst ?i = s1" "isl (snd ?i)"
    by (cases r1; simp)+
  with p1 have i2: "isl (snd ?i)" "persisted (fst ?i) = persisted s" by simp_all
  obtain t1 q1 where c: "check_es_index env s es_index False = (t1, q1)"
    by (cases "check_es_index env s es_index False")
  note k1 = check_es_index_keeps [OF c]
  obtain t2 q2 where rd: "read_data env t1 description_path data_path = (t2, q2)"
    by (cases "read_data env t1 description_path data_path")
  note k2 = read_data_keeps [OF rd]
  from ue c rd k1 k2
  have u2: "isl (snd ?u) \<and> persisted (fst ?u) = persisted s
      \<and> current_global_index (fst ?u) = current_global_index s"
    by (cases q1; cases q2) simp_all
  from ie ue i2 u2 show ?thesis by simp
qed


lemma demo_indexing_with_csv:
  "indexing demo_env init ''d/b.json'' ''idx'' (Some ''d/b.csv'') False None ''a+'' False =
     (\<lparr>current_global_index = Some 20000,
       trace = [Print ''==== Creating metadata and indexing for d/b.json'',
                CheckExists ''idx'', CurrentGlobalDatamartId ''idx'',
                JsonLoad ''d/b.json'', ValidateSchema (Inl demo_description), ReadCsv ''d/b.csv'']\<rparr>,
      Inl ValueError)"
  by (simp add: run_defs demo_defs)

theorem data_path_supplied_fails_witness:
  "Some ''d/b.csv'' \<noteq> None \<and> Some ''d/b.csv'' \<noteq> Some []
   \<and> indexing demo_env init ''d/b.json'' ''idx'' (Some ''d/b.csv'') False None ''a+'' False =
     (\<lparr>current_global_index = Some 20000,
       trace = [Print ''==== Creating metadata and indexing for d/b.json'',
                CheckExists ''idx'', CurrentGlobalDatamartId ''idx'',
                JsonLoad ''d/b.json'', ValidateSchema (Inl demo_description), ReadCsv ''d/b.csv'']\<rparr>,
      Inl ValueError)
   \<and> persisted (fst (indexing demo_env init ''d/b.json'' ''idx'' (Some ''d/b.csv'') False None ''a+'' False))
       = persisted init
   \<and> isl (snd (updating demo_env init ''d/b.json'' ''idx'' 7 (Some ''d/b.csv'') False))"
proof -
  have h1: "Some ''d/b.csv'' \<noteq> None" and h2: "Some ''d/b.csv'' \<noteq> Some []"
    by simp_all
  from data_path_supplied_fails [OF h1 h2, of demo_env init "''d/b.json''" "''idx''"
      False None "''a+''" False 7 False] demo_indexing_with_csv h1 h2
  show ?thesis by blast
qed

text \<open>
  The claim as stated, for every data path that is not \<open>None\<close>, fails for the empty
  string: \<open>if data_path\<close> is false for it, no data is read, and the call completes
  and writes the document.
\<close>

theorem data_path_not_none_counterexample:
  "Some [] \<noteq> (None :: string option)
   \<and> indexing demo_env init ''d/b.json'' ''idx'' (Some []) False None ''a+'' False =
     (\<lparr>current_global_index = Some 30000,
       trace = [Print ''==== Creating metadata and indexing for d/b.json'',
                CheckExists ''idx'', CurrentGlobalDatamartId ''idx'',
                JsonLoad ''d/b.json'', ValidateSchema (Inl demo_description),
                ValidateSchema (Inr (schema_only demo_description 30000)),
                CreateDoc ''idx'' ''_doc'' (schema_only demo_description 30000) 30000]\<rparr>,
      Inr (schema_only demo_description 30000))"
  by (simp add: run_defs demo_defs schema_only_def)

subsection \<open>Bulk indexing\<close>

lemma bulk_indexing_loop_append:
  "bulk_indexing_loop env dd ei data_dir q stf mode s (xs @ ys) =
     (case bulk_indexing_loop env dd ei data_dir q stf mode s xs of
        (s1, Inl e) \<Rightarrow> (s1, Inl e)
      | (s1, Inr u) \<Rightarrow> bulk_indexing_loop env dd ei data_dir q stf mode s1 ys)"
proof (induction xs arbitrary: s)
  case Nil
  show ?case by simp
next
  case (Cons x xs)
  show ?case
  proof (cases "endswith x ''.json''")
    case False
    with Cons.IH show ?thesis by simp
  next
    case True
    obtain s1 r1 where i: "indexing env s (os_path_join dd x) ei (bulk_data_path data_dir x) q stf mode False = (s1, r1)"
      by (cases "indexing env s (os_path_join dd x) ei (bulk_data_path data_dir x) q stf mode False")
    with True Cons.IH [of s1] show ?thesis by (cases r1) simp_all
  qed
qed

text \<open>
  C1, as it holds for the code. \<open>bulk_indexing\<close> stops at the first description file whose
  \<open>indexing\<close> raises: when the files listed before it have been indexed and the
  indexing of a file \<open>name\<close> ending in \<open>.json\<close> raises \<open>e\<close>, then
  \<open>bulk_indexing\<close> raises \<open>e\<close> in the very state that call left, whatever files
  \<open>rest\<close> follow in the listing: none of them is processed.
\<close>

theorem bulk_indexing_stops_at_first_failure:
  assumes "check_es_index env s es_index delete_old_es_index = (s0, Inr u)"
    and "os_listdir env (trace s0) description_dir = Inr (before @ name # rest)"
    and "bulk_indexing_loop env description_dir es_index data_dir query_data_for_indexing
           save_to_file save_to_file_mode (emit (ListDir description_dir) s0) before = (s1, Inr ())"
    and "endswith name ''.json''"
    and "indexing env s1 (os_path_join description_dir name) es_index (bulk_data_path data_dir name)
           query_data_for_indexing save_to_file save_to_file_mode False = (s2, Inl e)"
  shows "bulk_indexing env s description_dir es_index data_dir query_data_for_indexing
           save_to_file save_to_file_mode delete_old_es_index = (s2, Inl e)"
proof -
  have "bulk_indexing_loop env description_dir es_index data_dir query_data_for_indexing
           save_to_file save_to_file_mode (emit (ListDir description_dir) s0) (before @ name # rest)
         = (s2, Inl e)"
    using assms(3,4,5) by (simp add: bulk_indexing_loop_append)
  with assms(1,2) show ?thesis
    by (simp add: bulk_indexing_def call_def)
qed

theorem bulk_indexing_stops_at_first_failure_witness:
  "check_es_index demo_env init ''idx'' False = (emit (CheckExists ''idx'') init, Inr ())
   \<and> os_listdir demo_env (trace (emit (CheckExists ''idx'') init)) ''d'' = Inr ([] @ ''a.json'' # [''b.json''])
   \<and> endswith ''a.json'' ''.json''
   \<and> bulk_indexing demo_env init ''d'' ''idx'' None False None ''a+'' False =
     (\<lparr>current_global_index = Some 20000,
       trace = [CheckExists ''idx'', ListDir ''d'',
                Print ''==== Creating metadata and indexing for d/a.json'',
                CheckExists ''idx'', CurrentGlobalDatamartId ''idx'',
                JsonLoad ''d/a.json'', ValidateSchema (Inl bad_description)]\<rparr>,
      Inl (OtherError ''invalid description''))"
proof -
  have 1: "check_es_index demo_env init ''idx'' False = (emit (CheckExists ''idx'') init, Inr ())"
    by (simp add: run_defs demo_defs)
  have 2: "os_listdir demo_env (trace (emit (CheckExists ''idx'') init)) ''d'' = Inr ([] @ ''a.json'' # [''b.json''])"
    by (simp add: demo_defs)
  have 3: "bulk_indexing_loop demo_env ''d'' ''idx'' None False None ''a+''
             (emit (ListDir ''d'') (emit (CheckExists ''idx'') init)) [] =
             (emit (ListDir ''d'') (emit (CheckExists ''idx'') init), Inr ())"
    by simp
  have 4: "endswith ''a.json'' ''.json''"
    by (simp add: endswith_def)
  have 5: "indexing demo_env (emit (ListDir ''d'') (emit (CheckExists ''idx'') init))
             (os_path_join ''d'' ''a.json'') ''idx'' (bulk_data_path None ''a.json'') False None ''a+'' False =
     (\<lparr>current_global_index = Some 20000,
       trace = [CheckExists ''idx'', ListDir ''d'',
                Print ''==== Creating metadata and indexing for d/a.json'',
                CheckExists ''idx'', CurrentGlobalDatamartId ''idx'',
                JsonLoad ''d/a.json'', ValidateSchema (Inl bad_description)]\<rparr>,
      Inl (OtherError ''invalid description''))"
    by (simp add: bulk_defs run_defs demo_defs)
  from bulk_indexing_stops_at_first_failure [OF 1 2 3 4 5] 1 2 4 show ?thesis by simp
qed


text \<open>
  The claim as stated fails: with the listing \<open>a.json, b.json\<close>, where the
  description of \<open>a.json\<close> is rejected by the schema, the batch ends with that
  exception and \<open>b.json\<close> is never loaded, although indexing it alone succeeds.
\<close>

theorem bulk_indexing_independent_counterexample:
  "bulk_indexing demo_env init ''d'' ''idx'' None False None ''a+'' False =
     (\<lparr>current_global_index = Some 20000,
       trace = [CheckExists ''idx'', ListDir ''d'',
                Print ''==== Creating metadata and indexing for d/a.json'',
                CheckExists ''idx'', CurrentGlobalDatamartId ''idx'',
                JsonLoad ''d/a.json'', ValidateSchema (Inl bad_description)]\<rparr>,
      Inl (OtherError ''invalid description''))
   \<and> os_listdir demo_env [CheckExists ''idx''] ''d'' = Inr [''a.json'', ''b.json'']
   \<and> JsonLoad ''d/b.json'' \<notin> set (trace (fst (bulk_indexing demo_env init ''d'' ''idx'' None False None ''a+'' False)))
   \<and> snd (indexing demo_env init ''d/b.json'' ''idx'' None False None ''a+'' False)
       = Inr (schema_only demo_description 30000)"
  by (simp add: bulk_defs run_defs demo_defs schema_only_def)

subsection \<open>Materialization and schema validation\<close>

lemma add_variables_no_data:
  "add_variables env i None gm ps =
     Inr (gm\<lparr>gm_variables :=
            gm_variables gm @ map (\<lambda>p. construct_variable (snd p) (int (fst p) + i + 1)) ps\<rparr>)"
proof (induction ps arbitrary: gm)
  case Nil
  show ?case by simp
next
  case (Cons p ps)
  obtain k d where p: "p = (k, d)" by (cases p)
  show ?case
    by (simp add: p Cons.IH construct_variable_metadata_def add_variable_metadata_def)
qed

lemma construct_schema_only:
  assumes "construct_global_metadata env s d None ow = (s', Inr m)"
  shows "m = schema_only d (gm_datamart_id m)"
proof -
  obtain s1 r1 where r: "resolve_datamart_id s ow = (s1, r1)"
    by (cases "resolve_datamart_id s ow")
  with assms obtain i where i: "r1 = Inr i"
    by (cases r1) (auto simp: construct_global_metadata_def)
  show ?thesis
  proof (cases "variables d")
    case None
    with assms r i show ?thesis
      by (auto simp: construct_global_metadata_def schema_only_def construct_global_def
            enumerate_from0_def)
  next
    case (Some vs)
    with assms r i show ?thesis
      by (cases vs)
        (auto simp: construct_global_metadata_def schema_only_def construct_global_def
          enumerate_from0_def add_variables_no_data Let_def)
  qed
qed

lemma construct_global_metadata_trace:
  assumes "construct_global_metadata env s d data ow = (s', r)"
  shows "\<exists>evs. trace s' = trace s @ evs"
  using construct_global_metadata_state [OF assms]
    resolve_datamart_id_state [of s ow "fst (resolve_datamart_id s ow)" "snd (resolve_datamart_id s ow)"]
  by auto

lemma indexing_finish_trace:
  assumes "indexing_finish env s d data es_index stf mode = (s', r)"
  shows "\<exists>evs. trace s' = trace s @ evs"
proof -
  obtain s1 r1 where c: "construct_global_metadata env s d data None = (s1, r1)"
    by (cases "construct_global_metadata env s d data None")
  from construct_global_metadata_trace [OF c] obtain evs1 where t1: "trace s1 = trace s @ evs1"
    by blast
  show ?thesis
  proof (cases r1)
    case (Inl e)
    with assms c t1 show ?thesis by (auto simp: indexing_finish_def)
  next
    case (Inr m0)
    define m where "m = (case data of None \<Rightarrow> m0 | Some df \<Rightarrow> profile df m0)"
    show ?thesis
    proof (cases "utils_validate_schema env (trace s1) (Inr m)")
      case (Inl e)
      with assms c Inr t1 show ?thesis
        by (auto simp: indexing_finish_def call_def m_def Let_def)
    next
      case v: (Inr u)
      show ?thesis
      proof (cases "stf \<noteq> None \<and> stf \<noteq> Some []")
        case True
        with assms c Inr v t1 show ?thesis
          by (cases "write_metadata env (trace (emit (ValidateSchema (Inr m)) s1)) (the stf) mode m";
              cases "im_create_doc env
                       (trace (emit (SaveData (the stf) mode m) (emit (ValidateSchema (Inr m)) s1)))
                       es_index ''_doc'' m (gm_datamart_id m)")
            (auto simp: indexing_finish_def call_def save_data_def m_def Let_def)
      next
        case False
        with assms c Inr v t1 show ?thesis
          by (cases "im_create_doc env (trace (emit (ValidateSchema (Inr m)) s1))
                       es_index ''_doc'' m (gm_datamart_id m)")
            (auto simp: indexing_finish_def call_def m_def Let_def)
      qed
    qed
  qed
qed

lemma indexing_finish_returns:
  assumes "indexing_finish env s d data es_index stf mode = (s', Inr m)"
  shows "\<exists>s1. construct_global_metadata env s d data None = (s1, Inr m)
           \<and> utils_validate_schema env (trace s1) (Inr m) = Inr ()
           \<and> current_global_index s' = current_global_index s1"
proof -
  obtain s1 r1 where c: "construct_global_metadata env s d data None = (s1, r1)"
    by (cases "construct_global_metadata env s d data None")
  show ?thesis
  proof (cases r1)
    case (Inl e)
    with assms c show ?thesis by (auto simp: indexing_finish_def)
  next
    case (Inr m0)
    have m: "(case data of None \<Rightarrow> m0 | Some df \<Rightarrow> profile df m0) = m0"
      by (cases data) (simp_all add: profile_def)
    show ?thesis
    proof (cases "utils_validate_schema env (trace s1) (Inr m0)")
      case (Inl e)
      with assms c Inr m show ?thesis
        by (auto simp: indexing_finish_def call_def Let_def)
    next
      case v: (Inr u)
      show ?thesis
      proof (cases "stf \<noteq> None \<and> stf \<noteq> Some []")
        case True
        with assms c Inr v m show ?thesis
          by (cases "write_metadata env (trace (emit (ValidateSchema (Inr m0)) s1)) (the stf) mode m0";
              cases "im_create_doc env
                       (trace (emit (SaveData (the stf) mode m0) (emit (ValidateSchema (Inr m0)) s1)))
                       es_index ''_doc'' m0 (gm_datamart_id m0)")
            (auto simp: indexing_finish_def call_def save_data_def Let_def)
      next
        case False
        with assms c Inr v m show ?thesis
          by (cases "im_create_doc env (trace (emit (ValidateSchema (Inr m0)) s1))
                       es_index ''_doc'' m0 (gm_datamart_id m0)")
            (auto simp: indexing_finish_def call_def Let_def)
      qed
    qed
  qed
qed

lemma indexing_finish_schema_only:
  assumes "indexing_finish env s d None es_index stf mode = (s', Inr m)"
  shows "m = schema_only d (gm_datamart_id m)"
  using indexing_finish_returns [OF assms] construct_schema_only by blast

text \<open>
  C8. When \<open>indexing\<close> is called with \<open>query_data_for_indexing\<close> true, no data
  has been read and the materializer raises, the exception is caught: it is printed, the
  warning is emitted, and \<open>indexing\<close> goes on as lines 75 to 87 do with no data. The
  warning is in the trace whatever happens next, and metadata that is returned is the
  metadata of the description alone, with no statistics of the profiler.
\<close>

theorem materialization_failure_is_not_fatal:
  assumes "indexing_read env s description_path es_index data_path delete_old_es_index = (s1, Inr (d, None))"
    and "utils_materialize env (trace s1) d = Inl e"
  shows "indexing env s description_path es_index data_path True save_to_file save_to_file_mode
             delete_old_es_index =
           indexing_finish env
             (emit (Warn materialization_warning) (emit (PrintExc e) (emit (Materialize d) s1)))
             d None es_index save_to_file save_to_file_mode
       \<and> Warn materialization_warning \<in> set (trace (fst
           (indexing env s description_path es_index data_path True save_to_file save_to_file_mode
              delete_old_es_index)))
       \<and> (\<forall>s' m. indexing env s description_path es_index data_path True save_to_file
                    save_to_file_mode delete_old_es_index = (s', Inr m) \<longrightarrow>
                  m = schema_only d (gm_datamart_id m))"
proof -
  let ?s2 = "emit (Warn materialization_warning) (emit (PrintExc e) (emit (Materialize d) s1))"
  let ?i = "indexing env s description_path es_index data_path True save_to_file save_to_file_mode
             delete_old_es_index"
  from assms have eq: "?i = indexing_finish env ?s2 d None es_index save_to_file save_to_file_mode"
    by (simp add: indexing_def query_data_def call_def)
  obtain s' r where f: "indexing_finish env ?s2 d None es_index save_to_file save_to_file_mode = (s', r)"
    by (cases "indexing_finish env ?s2 d None es_index save_to_file save_to_file_mode")
  from indexing_finish_trace [OF f] have "Warn materialization_warning \<in> set (trace s')"
    by auto
  with eq f have w: "Warn materialization_warning \<in> set (trace (fst ?i))" by simp
  from eq indexing_finish_schema_only
  have "\<forall>s' m. ?i = (s', Inr m) \<longrightarrow> m = schema_only d (gm_datamart_id m)"
    by auto
  with eq w show ?thesis by simp
qed


lemma demo_indexing_read:
  "indexing_read demo_env init ''d/b.json'' ''idx'' None False =
     (\<lparr>current_global_index = Some 20000,
       trace = [Print ''==== Creating metadata and indexing for d/b.json'',
                CheckExists ''idx'', CurrentGlobalDatamartId ''idx'',
                JsonLoad ''d/b.json'', ValidateSchema (Inl demo_description)]\<rparr>,
      Inr (demo_description, None))"
  by (simp add: run_defs demo_defs)

theorem materialization_failure_is_not_fatal_witness:
  "utils_materialize demo_env
       [Print ''==== Creating metadata and indexing for d/b.json'',
        CheckExists ''idx'', CurrentGlobalDatamartId ''idx'',
        JsonLoad ''d/b.json'', ValidateSchema (Inl demo_description)] demo_description
     = Inl (OtherError ''no materializer'')
   \<and> indexing demo_env init ''d/b.json'' ''idx'' None True None ''a+'' False =
     (\<lparr>current_global_index = Some 30000,
       trace = [Print ''==== Creating metadata and indexing for d/b.json'',
                CheckExists ''idx'', CurrentGlobalDatamartId ''idx'',
                JsonLoad ''d/b.json'', ValidateSchema (Inl demo_description),
                Materialize demo_description, PrintExc (OtherError ''no materializer''),
                Warn materialization_warning,
                ValidateSchema (Inr (schema_only demo_description 30000)),
                CreateDoc ''idx'' ''_doc'' (schema_only demo_description 30000) 30000]\<rparr>,
      Inr (schema_only demo_description 30000))"
proof -
  have m: "utils_materialize demo_env
       (trace \<lparr>current_global_index = Some 20000,
       trace = [Print ''==== Creating metadata and indexing for d/b.json'',
                CheckExists ''idx'', CurrentGlobalDatamartId ''idx'',
                JsonLoad ''d/b.json'', ValidateSchema (Inl demo_description)]\<rparr>) demo_description
     = Inl (OtherError ''no materializer'')"
    by (simp add: demo_defs)
  from materialization_failure_is_not_fatal [OF demo_indexing_read m, of None "''a+''"]
  have "indexing demo_env init ''d/b.json'' ''idx'' None True None ''a+'' False =
      indexing_finish demo_env
        (emit (Warn materialization_warning) (emit (PrintExc (OtherError ''no materializer''))
           (emit (Materialize demo_description)
             \<lparr>current_global_index = Some 20000,
               trace = [Print ''==== Creating metadata and indexing for d/b.json'',
                CheckExists ''idx'', CurrentGlobalDatamartId ''idx'',
                JsonLoad ''d/b.json'', ValidateSchema (Inl demo_description)]\<rparr>)))
        demo_description None ''idx'' None ''a+''"
    by blast
  then show ?thesis
    by (simp add: run_defs demo_defs schema_only_def)
qed

text \<open>
  C9. When the schema validation of the constructed metadata raises, \<open>indexing\<close>
  ends with that exception right after the validation: neither the mirror file nor the
  store has received anything from this call.
\<close>

theorem schema_invalid_persists_nothing:
  assumes "indexing_read env s description_path es_index data_path delete_old_es_index = (s1, Inr (d, data))"
    and "query_data env s1 d data query_data_for_indexing = (s2, Inr data')"
    and "construct_global_metadata env s2 d data' None = (s3, Inr metadata)"
    and "utils_validate_schema env (trace s3) (Inr metadata) = Inl e"
  shows "indexing env s description_path es_index data_path query_data_for_indexing
             save_to_file save_to_file_mode delete_old_es_index =
           (emit (ValidateSchema (Inr metadata)) s3, Inl e)
       \<and> persisted (emit (ValidateSchema (Inr metadata)) s3) = persisted s"
proof -
  have m: "(case data' of None \<Rightarrow> metadata | Some df \<Rightarrow> profile df metadata) = metadata"
    by (cases data') (simp_all add: profile_def)
  from assms m
  have "indexing env s description_path es_index data_path query_data_for_indexing
             save_to_file save_to_file_mode delete_old_es_index =
           (emit (ValidateSchema (Inr metadata)) s3, Inl e)"
    by (simp add: indexing_def indexing_finish_def call_def Let_def)
  moreover from indexing_read_keeps [OF assms(1)] query_data_keeps [OF assms(2)]
    construct_global_metadata_keeps [OF assms(3)]
  have "persisted (emit (ValidateSchema (Inr metadata)) s3) = persisted s"
    by simp
  ultimately show ?thesis by simp
qed

lemma strict_indexing_read:
  "indexing_read strict_env init ''d/b.json'' ''idx'' None False =
     (\<lparr>current_global_index = Some 20000,
       trace = [Print ''==== Creating metadata and indexing for d/b.json'',
                CheckExists ''idx'', CurrentGlobalDatamartId ''idx'',
                JsonLoad ''d/b.json'', ValidateSchema (Inl demo_description)]\<rparr>,
      Inr (demo_description, None))"
  by (simp add: run_defs demo_defs)

lemma strict_query_data:
  "query_data strict_env
     \<lparr>current_global_index = Some 20000,
       trace = [Print ''==== Creating metadata and indexing for d/b.json'',
                CheckExists ''idx'', CurrentGlobalDatamartId ''idx'',
                JsonLoad ''d/b.json'', ValidateSchema (Inl demo_description)]\<rparr>
     demo_description None False =
     (\<lparr>current_global_index = Some 20000,
       trace = [Print ''==== Creating metadata and indexing for d/b.json'',
                CheckExists ''idx'', CurrentGlobalDatamartId ''idx'',
                JsonLoad ''d/b.json'', ValidateSchema (Inl demo_description)]\<rparr>, Inr None)"
  by (simp add: query_data_def)

lemma strict_construct:
  "construct_global_metadata strict_env
     \<lparr>current_global_index = Some 20000,
       trace = [Print ''==== Creating metadata and indexing for d/b.json'',
                CheckExists ''idx'', CurrentGlobalDatamartId ''idx'',
                JsonLoad ''d/b.json'', ValidateSchema (Inl demo_description)]\<rparr>
     demo_description None None =
     (\<lparr>current_global_index = Some 30000,
       trace = [Print ''==== Creating metadata and indexing for d/b.json'',
                CheckExists ''idx'', CurrentGlobalDatamartId ''idx'',
                JsonLoad ''d/b.json'', ValidateSchema (Inl demo_description)]\<rparr>,
      Inr (schema_only demo_description 30000))"
  by (simp add: run_defs demo_defs schema_only_def)

theorem schema_invalid_persists_nothing_witness:
  "utils_validate_schema strict_env
       [Print ''==== Creating metadata and indexing for d/b.json'',
        CheckExists ''idx'', CurrentGlobalDatamartId ''idx'',
        JsonLoad ''d/b.json'', ValidateSchema (Inl demo_description)]
       (Inr (schema_only demo_description 30000)) = Inl (OtherError ''invalid metadata'')
   \<and> indexing strict_env init ''d/b.json'' ''idx'' None False (Some ''out.jsonl'') ''a+'' False =
     (\<lparr>current_global_index = Some 30000,
       trace = [Print ''==== Creating metadata and indexing for d/b.json'',
                CheckExists ''idx'', CurrentGlobalDatamartId ''idx'',
                JsonLoad ''d/b.json'', ValidateSchema (Inl demo_description),
                ValidateSchema (Inr (schema_only demo_description 30000))]\<rparr>,
      Inl (OtherError ''invalid metadata''))
   \<and> persisted (fst (indexing strict_env init ''d/b.json'' ''idx'' None False (Some ''out.jsonl'') ''a+'' False))
       = []"
proof -
  have v: "utils_validate_schema strict_env
       (trace \<lparr>current_global_index = Some 30000,
       trace = [Print ''==== Creating metadata and indexing for d/b.json'',
                CheckExists ''idx'', CurrentGlobalDatamartId ''idx'',
                JsonLoad ''d/b.json'', ValidateSchema (Inl demo_description)]\<rparr>)
       (Inr (schema_only demo_description 30000)) = Inl (OtherError ''invalid metadata'')"
    by (simp add: demo_defs)
  from schema_invalid_persists_nothing [OF strict_indexing_read strict_query_data strict_construct v,
      of "Some ''out.jsonl''" "''a+''"] v
  show ?thesis
    by (simp add: emit_def persisted_def init_def)
qed

subsection \<open>Successive calls of indexing\<close>













subsection \<open>Queries\<close>

text \<open>
  C5. \<open>query\<close> with no criterion (no column, no query string, no temporal bound, no
  global or variable id, no key/value pairs) is \<open>_query_all\<close>: the search with the
  match-everything body. The keyword arguments of the call are not handed on.
\<close>

theorem query_without_criteria:
  "query qm None minimum_should_match_ratio_for_col None None None None None None kw = query_all qm []
   \<and> query_all qm [] = search qm (match_all qm) []"
  by (simp add: query_def query_all_def)

theorem query_without_criteria_witness:
  "query demo_qm None (Some 1) None None None None None None [(''size'', ''10'')] = ([''all''], [])
   \<and> query demo_qm None None (Some ''taxi'') None None None None None [(''size'', ''10'')]
       = ([''any''], [(''size'', ''10'')])"
  using query_without_criteria [of demo_qm "Some 1" "[(''size'', ''10'')]"]
  by (simp add: query_def query_all_def demo_qm_def)

subsection \<open>Joins\<close>

text \<open>
  The cache invariant holds for a new \<open>Augment\<close> and is kept by every \<open>join\<close>.
\<close>

lemma cache_ok_init: "cache_ok env augment_init"
  by (simp add: cache_ok_def augment_init_def)

lemma cache_ok_join:
  assumes "cache_ok env a"
  shows "cache_ok env (fst (join env a l r lc rc lm rm name))"
proof -
  let ?a1 = "if joiners a name = None
             then a\<lparr>joiners := (joiners a)(name \<mapsto> prepare_joiner env name)\<rparr> else a"
  from assms have ok: "cache_ok env ?a1" by (auto simp: cache_ok_def)
  have "joiners (fst (join env a l r lc rc lm rm name)) = joiners ?a1"
    by (cases "joiners ?a1 name"; cases "the (joiners ?a1 name)";
        cases "resolve_left_metadata env l lm";
        cases "calculate_dsbox_features env l (projr (resolve_left_metadata env l lm))";
        cases "calculate_dsbox_features env r rm")
      (simp_all add: join_def Let_def)
  with ok show ?thesis by (simp add: cache_ok_def)
qed

text \<open>
  C6. \<open>join\<close> under a name for which \<open>prepare_joiner\<close> has no implementation
  emits the warning and returns the left table as it is; it raises nothing. The cache
  then holds \<open>None\<close> under that name.
\<close>

theorem join_without_joiner:
  assumes "prepare_joiner env name = None" and "cache_ok env a"
  shows "join env a left_df right_df left_columns right_columns left_metadata right_metadata name =
           (a\<lparr>joiners := (joiners a)(name \<mapsto> None),
              warnings := warnings a @ [no_joiner_warning]\<rparr>, Inr left_df)"
proof (cases "joiners a name")
  case None
  with assms(1) show ?thesis by (simp add: join_def)
next
  case (Some v)
  with assms have v: "v = None" by (simp add: cache_ok_def)
  with Some have "(joiners a)(name \<mapsto> None) = joiners a" by (auto simp: fun_upd_idem_iff)
  with Some v show ?thesis by (simp add: join_def)
qed

theorem join_without_joiner_witness:
  "prepare_joiner demo_augment_env ''fuzzy'' = None
   \<and> cache_ok demo_augment_env augment_init
   \<and> snd (join demo_augment_env augment_init demo_data [[''x'']] [[0]] [[0]] None None ''fuzzy'')
       = Inr demo_data
   \<and> warnings (fst (join demo_augment_env augment_init demo_data [[''x'']] [[0]] [[0]] None None ''fuzzy''))
       = [no_joiner_warning]"
proof -
  have p: "prepare_joiner demo_augment_env ''fuzzy'' = None"
    by (simp add: demo_augment_env_def)
  from join_without_joiner [OF p cache_ok_init, of demo_data "[[''x'']]" "[[0]]" "[[0]]" None None]
    p cache_ok_init
  show ?thesis by (simp add: augment_init_def)
qed

text \<open>
  C7. With a joiner registered under the name, once the metadata of both sides has been
  prepared, an exception raised by the joiner's \<open>join\<close> is the outcome of
  \<open>Augment.join\<close>: it is not caught, and no warning is emitted in its place.
\<close>

theorem joiner_exception_propagates:
  assumes "prepare_joiner env name = Some j" and "cache_ok env a"
    and "resolve_left_metadata env left_df left_metadata = Inr left_metadata1"
    and "calculate_dsbox_features env left_df left_metadata1 = Inr left_metadata2"
    and "calculate_dsbox_features env right_df right_metadata = Inr right_metadata2"
    and "j left_df right_df left_columns right_columns left_metadata2 right_metadata2 = Inl e"
  shows "join env a left_df right_df left_columns right_columns left_metadata right_metadata name =
           (a\<lparr>joiners := (joiners a)(name \<mapsto> Some j)\<rparr>, Inl e)
       \<and> warnings (fst (join env a left_df right_df left_columns right_columns left_metadata
            right_metadata name)) = warnings a"
proof (cases "joiners a name")
  case None
  with assms show ?thesis by (simp add: join_def)
next
  case (Some v)
  with assms(1,2) have v: "v = Some j" by (simp add: cache_ok_def)
  with Some have "(joiners a)(name \<mapsto> Some j) = joiners a" by (auto simp: fun_upd_idem_iff)
  with Some v assms(3-6) show ?thesis by (simp add: join_def)
qed

theorem joiner_exception_propagates_witness:
  "cache_ok demo_augment_env augment_init
   \<and> resolve_left_metadata demo_augment_env demo_data None = Inr (Some (schema_only bad_description 0))
   \<and> snd (join demo_augment_env augment_init demo_data [[''x'']] [[0]] [[0]] None None ''broken'')
       = Inl (OtherError ''join failed'')
   \<and> warnings (fst (join demo_augment_env augment_init demo_data [[''x'']] [[0]] [[0]] None None ''broken''))
       = []"
proof -
  have p: "prepare_joiner demo_augment_env ''broken'' =
      Some (\<lambda>l r lc rc lm rm. Inl (OtherError ''join failed''))"
    by (simp add: demo_augment_env_def)
  have l1: "resolve_left_metadata demo_augment_env demo_data None = Inr (Some (schema_only bad_description 0))"
    by (simp add: resolve_left_metadata_def demo_augment_env_def)
  have l2: "calculate_dsbox_features demo_augment_env demo_data (Some (schema_only bad_description 0))
      = Inr (Some (schema_only bad_description 0))"
    by (simp add: demo_augment_env_def)
  have r2: "calculate_dsbox_features demo_augment_env [[''x'']] None = Inr None"
    by (simp add: demo_augment_env_def)
  have j: "(\<lambda>l r lc rc lm rm. Inl (OtherError ''join failed'') :: exn + dataframe)
      demo_data [[''x'']] [[0]] [[0]] (Some (schema_only bad_description 0)) None
      = Inl (OtherError ''join failed'')"
    by simp
  from joiner_exception_propagates [OF p cache_ok_init l1 l2 r2 j] cache_ok_init l1
  show ?thesis by (simp add: augment_init_def)
qed


end
